theory Spec2Isabelle
  imports Complex_Main "HOL-Library.Word"
begin

section \<open>Go strings\<close>

text \<open>
  A Go string is a sequence of bytes, so it is a \<open>string\<close> here (a list of 8-bit
  characters); \<open>len\<close> is \<open>length\<close>, \<open>s[i:]\<close> is \<open>drop i s\<close> and \<open>s[:i]\<close> is
  \<open>take i s\<close>. The functions of package \<open>strings\<close> that the program calls are written out
  below with Go's names. Those that look at runes (\<open>TrimSpace\<close>, \<open>Fields\<close>, \<open>Split\<close> with
  an empty separator) decode UTF-8 the way Go does.
\<close>

definition HasPrefix :: "string \<Rightarrow> string \<Rightarrow> bool" where
  "HasPrefix s p = (take (length p) s = p)"

definition HasSuffix :: "string \<Rightarrow> string \<Rightarrow> bool" where
  "HasSuffix s p = (length p \<le> length s \<and> drop (length s - length p) s = p)"

definition TrimPrefix :: "string \<Rightarrow> string \<Rightarrow> string" where
  "TrimPrefix s p = (if HasPrefix s p then drop (length p) s else s)"

definition TrimSuffix :: "string \<Rightarrow> string \<Rightarrow> string" where
  "TrimSuffix s p = (if HasSuffix s p then take (length s - length p) s else s)"

fun Contains :: "string \<Rightarrow> string \<Rightarrow> bool" where
  "Contains [] sub = (sub = [])"
| "Contains (c # cs) sub = (HasPrefix (c # cs) sub \<or> Contains cs sub)"

text \<open>The cutsets of this program are ASCII, so a rune of the cutset is one byte.\<close>

definition ContainsAny :: "string \<Rightarrow> string \<Rightarrow> bool" where
  "ContainsAny s chars = list_ex (\<lambda>c. c \<in> set chars) s"

definition TrimLeft :: "string \<Rightarrow> string \<Rightarrow> string" where
  "TrimLeft s cutset = dropWhile (\<lambda>c. c \<in> set cutset) s"

definition TrimRight :: "string \<Rightarrow> string \<Rightarrow> string" where
  "TrimRight s cutset = rev (dropWhile (\<lambda>c. c \<in> set cutset) (rev s))"

definition Trim :: "string \<Rightarrow> string \<Rightarrow> string" where
  "Trim s cutset = TrimRight (TrimLeft s cutset) cutset"

subsection \<open>White space\<close>

text \<open>
  \<open>unicode.IsSpace\<close> holds of the six ASCII characters below and of U+0085, U+00A0,
  U+1680, U+2000 to U+200A, U+2028, U+2029, U+202F, U+205F and U+3000. Each of the latter
  has one UTF-8 encoding, which begins with a leading byte, and Go's decoder starts a rune
  at every leading byte; so a white-space rune starts at a position exactly when one of
  these byte sequences does.
\<close>

definition ascii_space :: "char \<Rightarrow> bool" where
  "ascii_space c = (of_char c \<in> {9, 10, 11, 12, 13, 32 :: nat})"

definition unicode_spaces :: "string list" where
  "unicode_spaces =
     [[CHR 0xC2, CHR 0x85], [CHR 0xC2, CHR 0xA0], [CHR 0xE1, CHR 0x9A, CHR 0x80],
      [CHR 0xE2, CHR 0x80, CHR 0x80], [CHR 0xE2, CHR 0x80, CHR 0x81],
      [CHR 0xE2, CHR 0x80, CHR 0x82], [CHR 0xE2, CHR 0x80, CHR 0x83],
      [CHR 0xE2, CHR 0x80, CHR 0x84], [CHR 0xE2, CHR 0x80, CHR 0x85],
      [CHR 0xE2, CHR 0x80, CHR 0x86], [CHR 0xE2, CHR 0x80, CHR 0x87],
      [CHR 0xE2, CHR 0x80, CHR 0x88], [CHR 0xE2, CHR 0x80, CHR 0x89],
      [CHR 0xE2, CHR 0x80, CHR 0x8A], [CHR 0xE2, CHR 0x80, CHR 0xA8],
      [CHR 0xE2, CHR 0x80, CHR 0xA9], [CHR 0xE2, CHR 0x80, CHR 0xAF],
      [CHR 0xE2, CHR 0x81, CHR 0x9F], [CHR 0xE3, CHR 0x80, CHR 0x80]]"

text \<open>The number of bytes of the white-space rune a string starts with, 0 if it starts with none.\<close>

definition space_width :: "string \<Rightarrow> nat" where
  "space_width s =
     (case s of
        [] \<Rightarrow> 0
      | c # cs \<Rightarrow>
          if ascii_space c then 1
          else (case List.find (HasPrefix s) unicode_spaces of
                  Some p \<Rightarrow> length p
                | None \<Rightarrow> 0))"

text \<open>The same at the end of a string, as \<open>utf8.DecodeLastRuneInString\<close> finds it.\<close>

definition space_width_end :: "string \<Rightarrow> nat" where
  "space_width_end s =
     (case rev s of
        [] \<Rightarrow> 0
      | c # cs \<Rightarrow>
          if ascii_space c then 1
          else (case List.find (HasSuffix s) unicode_spaces of
                  Some p \<Rightarrow> length p
                | None \<Rightarrow> 0))"

function trim_space_left :: "string \<Rightarrow> string" where
  "trim_space_left s =
     (if space_width s = 0 then s else trim_space_left (drop (space_width s) s))"
  by pat_completeness auto
termination
  by (relation "measure length") (auto simp: space_width_def split: list.splits)

declare trim_space_left.simps [simp del]

function trim_space_right :: "string \<Rightarrow> string" where
  "trim_space_right s =
     (if space_width_end s = 0 then s
      else trim_space_right (take (length s - space_width_end s) s))"
  by pat_completeness auto
termination
  by (relation "measure length") (auto simp: space_width_end_def split: list.splits)

declare trim_space_right.simps [simp del]

definition TrimSpace :: "string \<Rightarrow> string" where
  "TrimSpace s = trim_space_right (trim_space_left s)"

text \<open>
  \<open>strings.Fields\<close>: the maximal runs of bytes between white-space runes; \<open>cur\<close> is the
  field being read.
\<close>

function fields_from :: "string \<Rightarrow> string \<Rightarrow> string list" where
  "fields_from cur s =
     (if s = [] then (if cur = [] then [] else [cur])
      else if space_width s = 0 then fields_from (cur @ [hd s]) (tl s)
      else (if cur = [] then [] else [cur]) @ fields_from [] (drop (space_width s) s))"
  by pat_completeness auto
termination
  by (relation "measure (\<lambda>(cur, s). length s)") auto

declare fields_from.simps [simp del]

definition Fields :: "string \<Rightarrow> string list" where
  "Fields s = fields_from [] s"

subsection \<open>Split\<close>

text \<open>
  The width of the UTF-8 sequence a byte string starts with, as \<open>utf8.DecodeRuneInString\<close>
  returns it: an invalid or truncated sequence has width 1.
\<close>

definition cont_byte :: "nat \<Rightarrow> bool" where
  "cont_byte b = (128 \<le> b \<and> b \<le> 191)"

definition rune_width :: "nat list \<Rightarrow> nat" where
  "rune_width bs =
     (case bs of
        [] \<Rightarrow> 0
      | b0 # r \<Rightarrow>
          if 194 \<le> b0 \<and> b0 \<le> 223 then
            (case r of b1 # _ \<Rightarrow> if cont_byte b1 then 2 else 1 | _ \<Rightarrow> 1)
          else if 224 \<le> b0 \<and> b0 \<le> 239 then
            (case r of
               b1 # b2 # _ \<Rightarrow>
                 if (if b0 = 224 then 160 else 128) \<le> b1
                    \<and> b1 \<le> (if b0 = 237 then 159 else 191) \<and> cont_byte b2
                 then 3 else 1
             | _ \<Rightarrow> 1)
          else if 240 \<le> b0 \<and> b0 \<le> 244 then
            (case r of
               b1 # b2 # b3 # _ \<Rightarrow>
                 if (if b0 = 240 then 144 else 128) \<le> b1
                    \<and> b1 \<le> (if b0 = 244 then 143 else 191) \<and> cont_byte b2 \<and> cont_byte b3
                 then 4 else 1
             | _ \<Rightarrow> 1)
          else 1)"

text \<open>\<open>strings.Split(s, "")\<close> cuts \<open>s\<close> after each UTF-8 sequence.\<close>

function explode :: "string \<Rightarrow> string list" where
  "explode s =
     (if s = [] then []
      else take (rune_width (map of_char s)) s # explode (drop (rune_width (map of_char s)) s))"
  by pat_completeness auto
termination
  by (relation "measure length")
     (auto simp: rune_width_def neq_Nil_conv split: list.splits)

declare explode.simps [simp del]

text \<open>
  \<open>strings.Split(s, sep)\<close> for a non-empty separator: the pieces between the occurrences
  of \<open>sep\<close>, found from the left without overlap; \<open>cur\<close> is the piece being read.
\<close>

function split_from :: "string \<Rightarrow> string \<Rightarrow> string \<Rightarrow> string list" where
  "split_from sep cur s =
     (if s = [] then [cur]
      else if sep \<noteq> [] \<and> HasPrefix s sep
        then cur # split_from sep [] (drop (length sep) s)
      else split_from sep (cur @ [hd s]) (tl s))"
  by pat_completeness auto
termination
  by (relation "measure (\<lambda>(sep, cur, s). length s)") auto

declare split_from.simps [simp del]

definition Split :: "string \<Rightarrow> string \<Rightarrow> string list" where
  "Split s sep = (if sep = [] then explode s else split_from sep [] s)"

section \<open>The dotted-field extractor\<close>

text \<open>
  \<open>extractDotted\<close>: the loop over \<open>lines\<close> carries \<open>result\<close> and \<open>found\<close>; \<open>break\<close>
  returns the result read so far.
\<close>

fun extractDotted_loop :: "string \<Rightarrow> string \<Rightarrow> bool \<Rightarrow> string list \<Rightarrow> string" where
  "extractDotted_loop key result found [] = result"
| "extractDotted_loop key result found (line # lines) =
     (if \<not> found then
        (if HasPrefix line (''   '' @ key) \<and> length line > 39
         then extractDotted_loop key (drop 39 line) True lines
         else extractDotted_loop key result found lines)
      else
        (if length line > 39 \<and> TrimSpace (take 39 line) = ''''
         then extractDotted_loop key (result @ '','' @ TrimSpace (drop 39 line)) found lines
         else result))"

definition extractDotted :: "string list \<Rightarrow> string \<Rightarrow> string list" where
  "extractDotted lines key = Split (Trim (extractDotted_loop key '''' False lines) '','') '',''"

text \<open>
  The contract of the extractor in the words of its description, to compare with the loop:
  the labelled line is the first one that starts with three blanks and the label and is
  longer than 39 bytes; a continuation line is longer than 39 bytes with only white space
  in its first 39; the values are joined with commas, commas at both ends are dropped,
  and the text is cut at every comma.
\<close>

definition label_line :: "string \<Rightarrow> string \<Rightarrow> bool" where
  "label_line key line = (HasPrefix line (''   '' @ key) \<and> 39 < length line)"

definition continuation_line :: "string \<Rightarrow> bool" where
  "continuation_line line = (39 < length line \<and> TrimSpace (take 39 line) = '''')"

definition extract_contract :: "string list \<Rightarrow> string \<Rightarrow> string list" where
  "extract_contract lines key =
     (case dropWhile (\<lambda>l. \<not> label_line key l) lines of
        [] \<Rightarrow> ['''']
      | l # rest \<Rightarrow>
          Split (Trim (drop 39 l @
                       concat (map (\<lambda>c. '','' @ TrimSpace (drop 39 c))
                                   (takeWhile continuation_line rest))) '','') '','')"

section \<open>Errors and the world outside the program\<close>

text \<open>
  A Go \<open>error\<close> is its message. \<open>fmt.Errorf\<close> with \<open>%v\<close>, \<open>%w\<close> or \<open>%s\<close> puts the
  message of its argument into the new one.
\<close>

datatype error = Error string

fun message :: "error \<Rightarrow> string" where
  "message (Error m) = m"

text \<open>
  An IP address (\<open>net.IP\<close>) and a hardware address (\<open>net.HardwareAddr\<close>) are byte
  slices. A \<open>nil\<close> IP is \<open>None\<close>; the program asks a hardware address only for its
  length, so \<open>nil\<close> and the empty slice are both \<open>[]\<close>.
\<close>

type_synonym IP = "8 word list"
type_synonym HardwareAddr = "8 word list"

section \<open>DNS resolution\<close>

record MXRecord =
  Host :: string
  Priority :: "16 word"

record SOARecord =
  soa_NS :: string
  Mbox :: string
  Serial :: "32 word"
  Refresh :: "32 word"
  Retry :: "32 word"
  Expire :: "32 word"
  MinTTL :: "32 word"

record DNSRecords =
  Domain :: string
  A :: "string list"
  AAAA :: "string list"
  CNAME :: "string list"
  MX :: "MXRecord list"
  NS :: "string list"
  TXT :: "string list"
  SOA :: "SOARecord option"
  PTR :: "string list"

text \<open>
  The functions of package \<open>net\<close> that the program calls on texts and addresses are
  parameters: \<open>net.ParseIP\<close>, \<open>IP.To4\<close>, \<open>net.ParseMAC\<close> and \<open>IP.String\<close>.
\<close>

record netpkg =
  ParseIP :: "string \<Rightarrow> IP option"
  To4 :: "IP \<Rightarrow> IP option"
  ParseMAC :: "string \<Rightarrow> error + HardwareAddr"
  IPString :: "IP \<Rightarrow> string"

text \<open>
  The host resolver (\<open>net.Resolver\<close>) is outside the program: each lookup is a function
  of the name asked, with an error or an answer; a lookup that runs into the context's
  deadline is one that answers with an error. \<open>LookupMX\<close> answers with the \<open>Host\<close> and
  \<open>Pref\<close> of each \<open>net.MX\<close>, \<open>LookupNS\<close> with the \<open>Host\<close> of each \<open>net.NS\<close>.
\<close>

record resolver =
  LookupHost :: "string \<Rightarrow> error + string list"
  LookupCNAME :: "string \<Rightarrow> error + string"
  LookupMX :: "string \<Rightarrow> error + (string \<times> 16 word) list"
  LookupNS :: "string \<Rightarrow> error + string list"
  LookupTXT :: "string \<Rightarrow> error + string list"
  LookupAddr :: "string \<Rightarrow> error + string list"

text \<open>The calls made to the resolver, in order, are returned with the result.\<close>

datatype query =
  QHost string | QCNAME string | QMX string | QNS string | QTXT string | QAddr string

text \<open>
  Both \<open>NSLookup\<close> and \<open>Resolve\<close> clean the domain with the same three statements:
  \<open>TrimPrefix "http://"\<close>, then \<open>TrimPrefix "https://"\<close>, then \<open>TrimSuffix "/"\<close>.
\<close>

definition clean_domain :: "string \<Rightarrow> string" where
  "clean_domain domain =
     TrimSuffix (TrimPrefix (TrimPrefix domain ''http://'') ''https://'') ''/''"

text \<open>
  The cleaning in the words of the description, written with list operations only: a
  leading \<open>http://\<close> is removed, then a leading \<open>https://\<close>, then one trailing \<open>/\<close>.
\<close>

definition stripped :: "string \<Rightarrow> string" where
  "stripped d =
     (let a = (if take 7 d = ''http://'' then drop 7 d else d);
          b = (if take 8 a = ''https://'' then drop 8 a else a)
      in if b \<noteq> [] \<and> last b = CHR ''/'' then butlast b else b)"

text \<open>
  The loop of \<open>NSLookup\<close> that removes duplicates: \<open>uniqueIPs\<close> is the Go map, whose
  lookup of a missing key is \<open>false\<close>.
\<close>

fun unique_loop :: "(string \<rightharpoonup> bool) \<Rightarrow> string list \<Rightarrow> string list \<Rightarrow> string list" where
  "unique_loop uniqueIPs result [] = result"
| "unique_loop uniqueIPs result (ip # ips) =
     (if uniqueIPs ip \<noteq> Some True
      then unique_loop (uniqueIPs(ip \<mapsto> True)) (result @ [ip]) ips
      else unique_loop uniqueIPs result ips)"

definition NSLookup :: "resolver \<Rightarrow> string \<Rightarrow> (error + string list) \<times> query list" where
  "NSLookup r domain =
     (if domain = '''' then (Inl (Error ''domain cannot be empty''), [])
      else
        let domain = clean_domain domain in
        (case LookupHost r domain of
           Inl err \<Rightarrow>
             (Inl (Error (''failed to lookup '' @ domain @ '': '' @ message err)),
              [QHost domain])
         | Inr ips \<Rightarrow> (Inr (unique_loop Map.empty [] ips), [QHost domain])))"

text \<open>The loop of \<open>Resolve\<close> over the addresses of the host lookup.\<close>

fun addr_loop :: "netpkg \<Rightarrow> DNSRecords \<Rightarrow> string list \<Rightarrow> DNSRecords" where
  "addr_loop n records [] = records"
| "addr_loop n records (addr # addrs) =
     (case ParseIP n addr of
        None \<Rightarrow> addr_loop n records addrs
      | Some ip \<Rightarrow>
          if To4 n ip \<noteq> None
          then addr_loop n (records\<lparr>A := A records @ [addr]\<rparr>) addrs
          else addr_loop n (records\<lparr>AAAA := AAAA records @ [addr]\<rparr>) addrs)"

definition lookupSOA :: "resolver \<Rightarrow> string \<Rightarrow> SOARecord option" where
  "lookupSOA r domain =
     (case LookupNS r domain of
        Inr (ns # nsRecords) \<Rightarrow>
          Some \<lparr>soa_NS = TrimSuffix ns ''.'', Mbox = '''', Serial = 0, Refresh = 0,
                Retry = 0, Expire = 0, MinTTL = 0\<rparr>
      | _ \<Rightarrow> None)"

definition Resolve :: "netpkg \<Rightarrow> resolver \<Rightarrow> string \<Rightarrow> (error + DNSRecords) \<times> query list" where
  "Resolve n r domain =
     (if domain = '''' then (Inl (Error ''domain cannot be empty''), [])
      else
        let domain = clean_domain domain;
            records = \<lparr>Domain = domain, A = [], AAAA = [], CNAME = [], MX = [], NS = [],
                       TXT = [], SOA = None, PTR = []\<rparr>;
            records = (case LookupHost r domain of
                         Inr addrs \<Rightarrow> addr_loop n records addrs
                       | Inl err \<Rightarrow> records);
            records = (case LookupCNAME r domain of
                         Inr cname \<Rightarrow>
                           if cname \<noteq> domain @ ''.''
                           then records\<lparr>CNAME := CNAME records @ [TrimSuffix cname ''.'']\<rparr>
                           else records
                       | Inl err \<Rightarrow> records);
            records = (case LookupMX r domain of
                         Inr mxRecords \<Rightarrow>
                           records\<lparr>MX := MX records @
                             map (\<lambda>(host, pref).
                                    \<lparr>Host = TrimSuffix host ''.'', Priority = pref\<rparr>) mxRecords\<rparr>
                       | Inl err \<Rightarrow> records);
            records = (case LookupNS r domain of
                         Inr nsRecords \<Rightarrow>
                           records\<lparr>NS := NS records @
                             map (\<lambda>host. TrimSuffix host ''.'') nsRecords\<rparr>
                       | Inl err \<Rightarrow> records);
            records = (case LookupTXT r domain of
                         Inr txtRecords \<Rightarrow> records\<lparr>TXT := txtRecords\<rparr>
                       | Inl err \<Rightarrow> records);
            records = records\<lparr>SOA := lookupSOA r domain\<rparr>;
            records = (if ParseIP n domain \<noteq> None
                       then (case LookupAddr r domain of
                               Inr names \<Rightarrow> records\<lparr>PTR := names\<rparr>
                             | Inl err \<Rightarrow> records)
                       else records)
        in (Inr records,
            [QHost domain, QCNAME domain, QMX domain, QNS domain, QTXT domain, QNS domain]
            @ (if ParseIP n domain \<noteq> None then [QAddr domain] else [])))"

text \<open>A resolver and a package \<open>net\<close> to run the functions on.\<close>

definition example_net :: netpkg where
  "example_net =
     \<lparr>ParseIP = (\<lambda>s. if s = ''1.1.1.1'' then Some [1, 1, 1, 1]
                       else if s = ''2.2.2.2'' then Some [2, 2, 2, 2] else None),
      To4 = (\<lambda>ip. if length ip = 4 then Some ip else None),
      ParseMAC = (\<lambda>s. Inl (Error ''invalid MAC address'')),
      IPString = (\<lambda>ip. if ip = [1, 1, 1, 1] then ''1.1.1.1''
                        else if ip = [2, 2, 2, 2] then ''2.2.2.2'' else ''?'')\<rparr>"

definition example_resolver :: resolver where
  "example_resolver =
     \<lparr>LookupHost = (\<lambda>name. if name = ''example.com''
                             then Inr [''1.1.1.1'', ''2.2.2.2'', ''1.1.1.1'']
                             else Inl (Error ''no such host'')),
      LookupCNAME = (\<lambda>name. Inl (Error ''no such host'')),
      LookupMX = (\<lambda>name. Inl (Error ''no such host'')),
      LookupNS = (\<lambda>name. Inl (Error ''no such host'')),
      LookupTXT = (\<lambda>name. Inl (Error ''no such host'')),
      LookupAddr = (\<lambda>name. Inl (Error ''no such host''))\<rparr>"

section \<open>Integers, numbers in texts and patterns\<close>

text \<open>
  A Go \<open>int\<close>, \<open>int64\<close> or \<open>time.Duration\<close> is an \<open>int\<close> here (64 bits are assumed for
  \<open>int\<close>); where the program computes with them the wrap-around is written out with
  \<open>wrap64\<close>, and Go's division, which truncates towards zero, is \<open>quot\<close>. A
  \<open>time.Duration\<close> counts nanoseconds.
\<close>

definition wrap64 :: "int \<Rightarrow> int" where
  "wrap64 x = (x + 2 ^ 63) mod 2 ^ 64 - 2 ^ 63"

definition quot :: "int \<Rightarrow> int \<Rightarrow> int" where
  "quot a b = sgn a * sgn b * (\<bar>a\<bar> div \<bar>b\<bar>)"

definition Millisecond :: int where
  "Millisecond = 1000000"

definition Second :: int where
  "Second = 1000000000"

definition is_digit :: "char \<Rightarrow> bool" where
  "is_digit c = (48 \<le> (of_char c :: nat) \<and> (of_char c :: nat) \<le> 57)"

definition digit_char :: "nat \<Rightarrow> char" where
  "digit_char d = char_of (48 + d)"

definition dec_value :: "string \<Rightarrow> nat" where
  "dec_value ds = foldl (\<lambda>a c. 10 * a + (of_char c - 48)) 0 ds"

function nat_dec :: "nat \<Rightarrow> string" where
  "nat_dec n = (if n < 10 then [digit_char n] else nat_dec (n div 10) @ [digit_char (n mod 10)])"
  by pat_completeness auto
termination
  by (relation "measure id") auto

declare nat_dec.simps [simp del]

definition Itoa :: "int \<Rightarrow> string" where
  "Itoa i = (if i < 0 then ''-'' @ nat_dec (nat (- i)) else nat_dec (nat i))"

text \<open>
  \<open>strconv.Atoi\<close> returns a value with every error: 0 with a syntax error, the nearest
  64-bit integer with a range error. The program keeps the value and drops the error
  where it writes \<open>x, _ = strconv.Atoi(s)\<close>.
\<close>

definition Atoi :: "string \<Rightarrow> int \<times> error option" where
  "Atoi s =
     (let neg = (s \<noteq> [] \<and> hd s = CHR ''-'');
          ds = (if s \<noteq> [] \<and> (hd s = CHR ''-'' \<or> hd s = CHR ''+'') then tl s else s)
      in if ds = [] \<or> \<not> list_all is_digit ds then (0, Some (Error ''invalid syntax''))
         else if neg then
           (if int (dec_value ds) \<le> 2 ^ 63 then (- int (dec_value ds), None)
            else (- (2 ^ 63), Some (Error ''value out of range'')))
         else
           (if int (dec_value ds) \<le> 2 ^ 63 - 1 then (int (dec_value ds), None)
            else (2 ^ 63 - 1, Some (Error ''value out of range''))))"

text \<open>
  \<open>strconv.ParseFloat\<close> is only called on texts that match \<open>\d+(?:\.\d+)?\<close>. A
  \<open>float64\<close> is a \<open>real\<close> here and the text stands for its exact decimal value: the
  rounding of \<open>float64\<close> and its overflow are not in the model. On such a text
  \<open>ParseFloat\<close> returns an error only when the number is beyond \<open>float64\<close>, so the
  branches \<open>err == nil\<close> of \<open>parseLinuxPingOutput\<close> are always taken in the model. No
  theorem below depends on a round-trip time, and the only packet loss a theorem speaks
  of is 0.
\<close>

definition decimal_value :: "string \<Rightarrow> real" where
  "decimal_value s =
     (let whole = takeWhile is_digit s; fraction = drop (Suc (length whole)) s
      in real (dec_value whole) + real (dec_value fraction) / 10 ^ length fraction)"

text \<open>\<open>time.Duration(x * float64(time.Millisecond))\<close> for the number a text stands for.\<close>

definition duration_of_ms :: "string \<Rightarrow> int" where
  "duration_of_ms s = \<lfloor>decimal_value s * real_of_int Millisecond\<rfloor>"

subsection \<open>The regular expressions of the ping parsers\<close>

text \<open>
  Each pattern of the program is a sequence of literal texts and numbers. \<open>\d+\<close> followed
  by a literal that does not start with a digit can only match a whole run of digits,
  and \<open>(?:\.\d+)?\<close> is taken exactly when a dot and a digit follow; so at a given start
  there is at most one match, found by reading from left to right. A matcher returns the
  text matched and the rest. \<open>FindStringSubmatch\<close> returns the match at the leftmost start.
\<close>

definition lit :: "string \<Rightarrow> string \<Rightarrow> string option" where
  "lit p s = (if HasPrefix s p then Some (drop (length p) s) else None)"

definition digits1 :: "string \<Rightarrow> (string \<times> string) option" where
  "digits1 s =
     (if takeWhile is_digit s = [] then None
      else Some (takeWhile is_digit s, dropWhile is_digit s))"

definition number :: "string \<Rightarrow> (string \<times> string) option" where
  "number s =
     (case digits1 s of
        None \<Rightarrow> None
      | Some (whole, rest) \<Rightarrow>
          (case lit ''.'' rest of
             None \<Rightarrow> Some (whole, rest)
           | Some rest1 \<Rightarrow>
               (case digits1 rest1 of
                  None \<Rightarrow> Some (whole, rest)
                | Some (fraction, rest2) \<Rightarrow> Some (whole @ ''.'' @ fraction, rest2))))"

fun FindStringSubmatch :: "(string \<Rightarrow> 'a option) \<Rightarrow> string \<Rightarrow> 'a option" where
  "FindStringSubmatch re [] = re []"
| "FindStringSubmatch re (c # cs) =
     (case re (c # cs) of
        Some m \<Rightarrow> Some m
      | None \<Rightarrow> FindStringSubmatch re cs)"

text \<open>\<open>Sent = (\d+), Received = (\d+), Lost = (\d+)\<close>\<close>

definition re_windows_packets :: "string \<Rightarrow> (string \<times> string \<times> string) option" where
  "re_windows_packets s =
     (case lit ''Sent = '' s of None \<Rightarrow> None | Some s1 \<Rightarrow>
      case digits1 s1 of None \<Rightarrow> None | Some (m1, s2) \<Rightarrow>
      case lit '', Received = '' s2 of None \<Rightarrow> None | Some s3 \<Rightarrow>
      case digits1 s3 of None \<Rightarrow> None | Some (m2, s4) \<Rightarrow>
      case lit '', Lost = '' s4 of None \<Rightarrow> None | Some s5 \<Rightarrow>
      case digits1 s5 of None \<Rightarrow> None | Some (m3, s6) \<Rightarrow> Some (m1, m2, m3))"

text \<open>\<open>Minimum = (\d+)ms, Maximum = (\d+)ms, Average = (\d+)ms\<close>\<close>

definition re_windows_rtt :: "string \<Rightarrow> (string \<times> string \<times> string) option" where
  "re_windows_rtt s =
     (case lit ''Minimum = '' s of None \<Rightarrow> None | Some s1 \<Rightarrow>
      case digits1 s1 of None \<Rightarrow> None | Some (m1, s2) \<Rightarrow>
      case lit ''ms, Maximum = '' s2 of None \<Rightarrow> None | Some s3 \<Rightarrow>
      case digits1 s3 of None \<Rightarrow> None | Some (m2, s4) \<Rightarrow>
      case lit ''ms, Average = '' s4 of None \<Rightarrow> None | Some s5 \<Rightarrow>
      case digits1 s5 of None \<Rightarrow> None | Some (m3, s6) \<Rightarrow>
      case lit ''ms'' s6 of None \<Rightarrow> None | Some s7 \<Rightarrow> Some (m1, m2, m3))"

text \<open>\<open>(\d+) packets transmitted, (\d+) received\<close>\<close>

definition re_linux_packets :: "string \<Rightarrow> (string \<times> string) option" where
  "re_linux_packets s =
     (case digits1 s of None \<Rightarrow> None | Some (m1, s1) \<Rightarrow>
      case lit '' packets transmitted, '' s1 of None \<Rightarrow> None | Some s2 \<Rightarrow>
      case digits1 s2 of None \<Rightarrow> None | Some (m2, s3) \<Rightarrow>
      case lit '' received'' s3 of None \<Rightarrow> None | Some s4 \<Rightarrow> Some (m1, m2))"

text \<open>\<open>(\d+(?:\.\d+)?)% packet loss\<close>\<close>

definition re_linux_loss :: "string \<Rightarrow> string option" where
  "re_linux_loss s =
     (case number s of None \<Rightarrow> None | Some (m1, s1) \<Rightarrow>
      case lit ''% packet loss'' s1 of None \<Rightarrow> None | Some s2 \<Rightarrow> Some m1)"

text \<open>\<open>(\d+(?:\.\d+)?)/(\d+(?:\.\d+)?)/(\d+(?:\.\d+)?)/(\d+(?:\.\d+)?)\<close>\<close>

definition re_linux_rtt :: "string \<Rightarrow> (string \<times> string \<times> string \<times> string) option" where
  "re_linux_rtt s =
     (case number s of None \<Rightarrow> None | Some (m1, s1) \<Rightarrow>
      case lit ''/'' s1 of None \<Rightarrow> None | Some s2 \<Rightarrow>
      case number s2 of None \<Rightarrow> None | Some (m2, s3) \<Rightarrow>
      case lit ''/'' s3 of None \<Rightarrow> None | Some s4 \<Rightarrow>
      case number s4 of None \<Rightarrow> None | Some (m3, s5) \<Rightarrow>
      case lit ''/'' s5 of None \<Rightarrow> None | Some s6 \<Rightarrow>
      case number s6 of None \<Rightarrow> None | Some (m4, s7) \<Rightarrow> Some (m1, m2, m3, m4))"

section \<open>The operating system\<close>

text \<open>
  What the program asks of the operating system is a parameter: the platform
  (\<open>runtime.GOOS == "windows"\<close>), \<open>exec.LookPath\<close>, and the two ways it runs a command,
  \<open>CombinedOutput\<close> (which returns the output together with the error, if any) and
  \<open>Output\<close> (of which the program reads the output only when there is no error). The
  remaining fields are used by the configuration discovery: \<open>net.InterfaceByName\<close>,
  \<open>net.Interfaces\<close> (an interface with its name, its hardware address and what
  \<open>Addrs\<close> returns: an error, or the texts of its addresses), the local address of the
  UDP connection that \<open>net.Dial\<close> opens, and \<open>filepath.Join\<close>.
\<close>

record Interface =
  Name :: string
  HardwareAddr :: HardwareAddr
  Addrs :: "error + string list"

record os =
  windows :: bool
  LookPath :: "string \<Rightarrow> error + string"
  CombinedOutput :: "string \<Rightarrow> string list \<Rightarrow> string \<times> error option"
  Output :: "string \<Rightarrow> string list \<Rightarrow> error + string"
  InterfaceByName :: "string \<Rightarrow> error + Interface"
  Interfaces :: "error + Interface list"
  DialUDP :: "error + IP option"
  PathJoin :: "string \<Rightarrow> string \<Rightarrow> string"

text \<open>\<open>findCommand\<close>: the first of \<open>paths\<close> that can be run, else the command on PATH.\<close>

fun findCommand :: "os \<Rightarrow> string \<Rightarrow> string list \<Rightarrow> string" where
  "findCommand w name [] =
     (case LookPath w name of Inr path \<Rightarrow> path | Inl err \<Rightarrow> '''')"
| "findCommand w name (path # paths) =
     (case LookPath w path of Inr found \<Rightarrow> path | Inl err \<Rightarrow> findCommand w name paths)"

section \<open>Ping\<close>

record PingResult =
  Host :: string
  Sent :: int
  Received :: int
  Lost :: int
  PacketLoss :: real
  MinRTT :: int
  MaxRTT :: int
  AvgRTT :: int
  StdDevRTT :: int
  Success :: bool
  ErrorMessage :: string

record PingOptions =
  Count :: int
  Timeout :: int
  Size :: int

definition DefaultPingOptions :: "os \<Rightarrow> PingOptions" where
  "DefaultPingOptions w =
     \<lparr>Count = 4, Timeout = 4 * Second, Size = (if windows w then 32 else 56)\<rparr>"

text \<open>
  \<open>Timeout.Milliseconds()\<close> is an integer division. \<open>Timeout.Seconds()\<close> is a
  \<open>float64\<close> that \<open>int(...)\<close> truncates; the model divides the nanoseconds exactly,
  which is the same number for every timeout below \<open>2^24\<close> seconds.
\<close>

definition pingWindows :: "os \<Rightarrow> string \<Rightarrow> PingOptions \<Rightarrow> string \<times> error option" where
  "pingWindows w host options =
     CombinedOutput w ''ping''
       [''-n'', Itoa (Count options),
        ''-w'', Itoa (quot (Timeout options) Millisecond),
        ''-l'', Itoa (Size options),
        host]"

definition pingLinux :: "os \<Rightarrow> string \<Rightarrow> PingOptions \<Rightarrow> string \<times> error option" where
  "pingLinux w host options =
     (let pingCmd = findCommand w ''ping''
                      [''/bin/ping'', ''/sbin/ping'', ''/usr/bin/ping'', ''/usr/sbin/ping''];
          pingCmd = (if pingCmd = '''' then ''ping'' else pingCmd)
      in CombinedOutput w pingCmd
           [''-c'', Itoa (Count options),
            ''-W'', Itoa (quot (Timeout options) Second),
            ''-s'', Itoa (Size options),
            host])"

text \<open>The body of the loop of \<open>parseWindowsPingOutput\<close> for one line.\<close>

definition parseWindowsLine :: "string \<Rightarrow> PingResult \<Rightarrow> PingResult" where
  "parseWindowsLine line0 result =
     (let line = TrimSpace line0;
          result =
            (if Contains line ''Packets:'' then
               (case FindStringSubmatch re_windows_packets line of
                  Some (m1, m2, m3) \<Rightarrow>
                    result\<lparr>Sent := fst (Atoi m1), Received := fst (Atoi m2),
                           Lost := fst (Atoi m3)\<rparr>
                | None \<Rightarrow> result)
             else result);
          result =
            (if Contains line ''Minimum'' \<and> Contains line ''Maximum'' then
               (case FindStringSubmatch re_windows_rtt line of
                  Some (m1, m2, m3) \<Rightarrow>
                    (let result =
                           (if snd (Atoi m1) = None
                            then result\<lparr>MinRTT := wrap64 (fst (Atoi m1) * Millisecond)\<rparr>
                            else result);
                         result =
                           (if snd (Atoi m2) = None
                            then result\<lparr>MaxRTT := wrap64 (fst (Atoi m2) * Millisecond)\<rparr>
                            else result);
                         result =
                           (if snd (Atoi m3) = None
                            then result\<lparr>AvgRTT := wrap64 (fst (Atoi m3) * Millisecond)\<rparr>
                            else result)
                     in result)
                | None \<Rightarrow> result)
             else result)
      in result)"

definition parseWindowsPingOutput :: "string \<Rightarrow> PingResult \<Rightarrow> PingResult" where
  "parseWindowsPingOutput output result =
     foldl (\<lambda>result line. parseWindowsLine line result) result (Split output [CHR 0x0A])"

text \<open>The body of the loop of \<open>parseLinuxPingOutput\<close> for one line.\<close>

definition parseLinuxLine :: "string \<Rightarrow> PingResult \<Rightarrow> PingResult" where
  "parseLinuxLine line0 result =
     (let line = TrimSpace line0;
          result =
            (if Contains line ''packets transmitted'' then
               (let result =
                      (case FindStringSubmatch re_linux_packets line of
                         Some (m1, m2) \<Rightarrow>
                           result\<lparr>Sent := fst (Atoi m1), Received := fst (Atoi m2)\<rparr>
                       | None \<Rightarrow> result);
                    result =
                      (case FindStringSubmatch re_linux_loss line of
                         Some m1 \<Rightarrow> result\<lparr>PacketLoss := decimal_value m1\<rparr>
                       | None \<Rightarrow> result)
                in result)
             else result);
          result =
            (if Contains line ''rtt min/avg/max'' then
               (case FindStringSubmatch re_linux_rtt line of
                  Some (m1, m2, m3, m4) \<Rightarrow>
                    result\<lparr>MinRTT := duration_of_ms m1, AvgRTT := duration_of_ms m2,
                           MaxRTT := duration_of_ms m3, StdDevRTT := duration_of_ms m4\<rparr>
                | None \<Rightarrow> result)
             else result)
      in result)"

definition parseLinuxPingOutput :: "string \<Rightarrow> PingResult \<Rightarrow> PingResult" where
  "parseLinuxPingOutput output result =
     (let result = foldl (\<lambda>result line. parseLinuxLine line result) result
                     (Split output [CHR 0x0A])
      in if Sent result > 0 \<and> Lost result = 0
         then result\<lparr>Lost := wrap64 (Sent result - Received result)\<rparr>
         else result)"

text \<open>The two places where \<open>Ping\<close> chooses by platform.\<close>

definition run_ping :: "os \<Rightarrow> string \<Rightarrow> PingOptions \<Rightarrow> string \<times> error option" where
  "run_ping w host options =
     (if windows w then pingWindows w host options else pingLinux w host options)"

definition parse_ping :: "os \<Rightarrow> string \<Rightarrow> PingResult \<Rightarrow> PingResult" where
  "parse_ping w output result =
     (if windows w then parseWindowsPingOutput output result
      else parseLinuxPingOutput output result)"

text \<open>The block \<open>// Validate options\<close> of \<open>Ping\<close>.\<close>

definition validate_options :: "PingOptions \<Rightarrow> PingOptions" where
  "validate_options options =
     (let options = (if Count options \<le> 0 then options\<lparr>Count := 4\<rparr> else options);
          options = (if Timeout options \<le> 0 then options\<lparr>Timeout := 4 * Second\<rparr>
                     else options);
          options = (if Size options \<le> 0 then options\<lparr>Size := 32\<rparr> else options)
      in options)"

text \<open>The end of \<open>Ping\<close>, from \<open>// Parse the output\<close> on.\<close>

definition ping_statistics :: "os \<Rightarrow> string \<Rightarrow> PingResult \<Rightarrow> PingResult" where
  "ping_statistics w output result0 =
     (let result = parse_ping w output result0
      in if Sent result > 0
         then (let lost = wrap64 (Sent result - Received result)
               in result\<lparr>Lost := lost,
                         PacketLoss := real_of_int lost / real_of_int (Sent result) * 100,
                         Success := (Received result > 0)\<rparr>)
         else result)"

text \<open>
  \<open>Ping\<close>. The argument \<open>options\<close> is a pointer: \<open>None\<close> is \<open>nil\<close>, and \<open>Some\<close> holds
  the struct of the caller it points to. The function writes to that struct, so it
  returns, with the result or the error, the struct of the caller as it is after the call.
\<close>

definition Ping ::
  "os \<Rightarrow> string \<Rightarrow> PingOptions option \<Rightarrow> (error + PingResult) \<times> PingOptions option" where
  "Ping w host options =
     (if host = '''' then (Inl (Error ''host cannot be empty''), options)
      else
        let opts = validate_options
                     (case options of None \<Rightarrow> DefaultPingOptions w | Some given \<Rightarrow> given);
            caller = (case options of None \<Rightarrow> None | Some given \<Rightarrow> Some opts);
            result = \<lparr>Host = host, Sent = 0, Received = 0, Lost = 0, PacketLoss = 0,
                      MinRTT = 0, MaxRTT = 0, AvgRTT = 0, StdDevRTT = 0,
                      Success = False, ErrorMessage = ''''\<rparr>;
            (output, err) = run_ping w host opts
        in (case err of
              None \<Rightarrow> (Inr (ping_statistics w output result), caller)
            | Some e \<Rightarrow>
                let result = (if output \<noteq> [] then parse_ping w output result else result)
                in if Sent result = 0 \<or> Received result = 0
                   then (Inr (result\<lparr>Success := False,
                                     ErrorMessage := ''failed to ping '' @ host @ '': ''
                                                     @ message e\<rparr>), caller)
                   else (Inr (ping_statistics w output result), caller)))"

text \<open>Two machines to run \<open>Ping\<close> on: one with Windows where the host does not answer,
  one with Linux where it does.\<close>

definition windows_unreachable :: os where
  "windows_unreachable =
     \<lparr>windows = True,
      LookPath = (\<lambda>file. Inl (Error ''executable file not found'')),
      CombinedOutput = (\<lambda>name args.
        (''Pinging 10.255.255.1 with 32 bytes of data:'' @ [CHR 0x0D, CHR 0x0A]
         @ ''Request timed out.'' @ [CHR 0x0D, CHR 0x0A]
         @ [CHR 0x0D, CHR 0x0A]
         @ ''Ping statistics for 10.255.255.1:'' @ [CHR 0x0D, CHR 0x0A]
         @ ''    Packets: Sent = 4, Received = 0, Lost = 4 (100% loss),''
         @ [CHR 0x0D, CHR 0x0A],
         Some (Error ''exit status 1''))),
      Output = (\<lambda>name args. Inl (Error ''exit status 1'')),
      InterfaceByName = (\<lambda>name. Inl (Error ''no such network interface'')),
      Interfaces = Inr [],
      DialUDP = Inl (Error ''network is unreachable''),
      PathJoin = (\<lambda>dir file. dir @ ''/'' @ file)\<rparr>"

definition linux_reachable :: os where
  "linux_reachable =
     \<lparr>windows = False,
      LookPath = (\<lambda>file. if file = ''/bin/ping'' then Inr file
                          else Inl (Error ''executable file not found'')),
      CombinedOutput = (\<lambda>name args.
        if name = ''/bin/ping'' then
          (''PING 127.0.0.1 (127.0.0.1) 56(84) bytes of data.'' @ [CHR 0x0A]
           @ ''--- 127.0.0.1 ping statistics ---'' @ [CHR 0x0A]
           @ ''4 packets transmitted, 3 received, 25% packet loss, time 3003ms'' @ [CHR 0x0A]
           @ ''rtt min/avg/max/mdev = 10.5/14.6/20.1/3.5 ms'' @ [CHR 0x0A],
           None)
        else ('''', Some (Error ''executable file not found''))),
      Output = (\<lambda>name args. Inl (Error ''exit status 1'')),
      InterfaceByName = (\<lambda>name. Inl (Error ''no such network interface'')),
      Interfaces = Inr [],
      DialUDP = Inl (Error ''network is unreachable''),
      PathJoin = (\<lambda>dir file. dir @ ''/'' @ file)\<rparr>"


text \<open>A machine on which no command can be run.\<close>

definition no_commands :: os where
  "no_commands =
     windows_unreachable
       \<lparr>windows := False,
        CombinedOutput := (\<lambda>name args. ('''', Some (Error ''executable file not found'')))\<rparr>"

section \<open>Network configuration\<close>

record Network =
  LocalIP :: "IP option"
  DNS :: "string list"
  SubnetMask :: "IP option"
  DefaultGateway :: "IP option"
  DefaultGatewayHardwareAddress :: HardwareAddr
  InterfaceName :: string
  HardwareAddress :: HardwareAddr
  Suffix :: string
  Interface :: "Interface option"

text \<open>\<open>Network{}\<close>, the zero value.\<close>

definition empty_Network :: Network where
  "empty_Network =
     \<lparr>LocalIP = None, DNS = [], SubnetMask = None, DefaultGateway = None,
      DefaultGatewayHardwareAddress = [], InterfaceName = '''', HardwareAddress = [],
      Suffix = '''', Interface = None\<rparr>"

text \<open>
  A command run with \<open>exec.Command(name, args...).Output()\<close>. The discovery functions
  return, with their error and the \<open>Network\<close> they have written to, the commands they
  have run, in order.
\<close>

type_synonym command = "string \<times> string list"

text \<open>\<open>x, _ = net.ParseMAC(s)\<close>: the address, or \<open>nil\<close> with an error.\<close>

definition ParseMAC_or_nil :: "netpkg \<Rightarrow> string \<Rightarrow> HardwareAddr" where
  "ParseMAC_or_nil n s = (case ParseMAC n s of Inr hw \<Rightarrow> hw | Inl err \<Rightarrow> [])"

subsection \<open>Linux\<close>

text \<open>\<open>getLinux\<close>, last part: from \<open>// Validate IP before using in command\<close> on.\<close>

definition getLinux_arp ::
  "netpkg \<Rightarrow> os \<Rightarrow> Network \<Rightarrow> command list \<Rightarrow> error option \<times> Network \<times> command list" where
  "getLinux_arp n w network cmds =
     (case DefaultGateway network of
        None \<Rightarrow> (None, network, cmds)
      | Some gateway \<Rightarrow>
          (case Output w ''arp'' [''-e'', IPString n gateway] of
             Inl err \<Rightarrow> (Some err, network, cmds @ [(''arp'', [''-e'', IPString n gateway])])
           | Inr out \<Rightarrow>
               let lines = Split out [CHR 0x0A];
                   network =
                     (if length lines \<ge> 2 then
                        (let fields = Fields (lines ! 1)
                         in if length fields > 2
                            then network\<lparr>DefaultGatewayHardwareAddress :=
                                           ParseMAC_or_nil n (fields ! 2)\<rparr>
                            else network)
                      else network)
               in (None, network, cmds @ [(''arp'', [''-e'', IPString n gateway])])))"

text \<open>
  The loops over the lines that \<open>grep\<close> has found in the lease file: the state is
  \<open>dnslist\<close> and the \<open>Network\<close>.
\<close>

definition lease_items :: "string \<Rightarrow> string list \<Rightarrow> string" where
  "lease_items dnslist list =
     foldl (\<lambda>dnslist dnsitem.
              if \<not> Contains dnslist dnsitem then dnslist @ dnsitem @ '','' else dnslist)
           dnslist list"

definition lease_line :: "string \<times> Network \<Rightarrow> string \<Rightarrow> string \<times> Network" where
  "lease_line state line =
     (let (dnslist, network) = state;
          trimmedLine = TrimSpace line;
          (dnslist, network) =
            (if Contains line ''domain-name-servers'' then
               (if length trimmedLine > 26
                then (lease_items dnslist
                        (Split (TrimRight (drop 26 trimmedLine) '';'') '',''), network)
                else (dnslist, network))
             else
               (if length trimmedLine > 18
                then (dnslist, network\<lparr>Suffix := TrimRight (drop 18 trimmedLine) '';''\<rparr>)
                else (dnslist, network)))
      in (TrimRight dnslist '','', network))"

text \<open>\<open>getLinux\<close>, third part: from \<open>// Sanitize interface name\<close> on.\<close>

definition getLinux_lease ::
  "netpkg \<Rightarrow> os \<Rightarrow> Network \<Rightarrow> command list \<Rightarrow> error option \<times> Network \<times> command list" where
  "getLinux_lease n w network cmds =
     (if ContainsAny (InterfaceName network)
           ('';&|'' @ [CHR 0x60] @ ''$()'' @ [CHR 0x0A])
      then (Some (Error ''invalid interface name''), network, cmds)
      else
        let leasePath = PathJoin w ''/var/lib/dhcp''
                          (''dhclient.'' @ InterfaceName network @ ''.leases'')
        in (case Output w ''grep'' [''domain-name'', leasePath] of
              Inl err \<Rightarrow> (Some err, network, cmds @ [(''grep'', [''domain-name'', leasePath])])
            | Inr out \<Rightarrow>
                let lines = Split (TrimSpace out) [CHR 0x0A];
                    (dnslist, network) = foldl lease_line ('''', network) lines;
                    network = network\<lparr>DNS := Split dnslist '',''\<rparr>
                in getLinux_arp n w network
                     (cmds @ [(''grep'', [''domain-name'', leasePath])])))"

text \<open>\<open>getLinux\<close>, second part: from \<open>// Try common locations for ifconfig command\<close> on.\<close>

definition getLinux_ifconfig ::
  "netpkg \<Rightarrow> os \<Rightarrow> Network \<Rightarrow> command list \<Rightarrow> error option \<times> Network \<times> command list" where
  "getLinux_ifconfig n w network cmds =
     (let ifconfigCmd = findCommand w ''ifconfig''
            [''/sbin/ifconfig'', ''/bin/ifconfig'', ''/usr/sbin/ifconfig'', ''/usr/bin/ifconfig''];
          ifconfigCmd = (if ifconfigCmd = '''' then ''ifconfig'' else ifconfigCmd)
      in (case Output w ifconfigCmd [InterfaceName network] of
            Inl err \<Rightarrow> (Some err, network, cmds @ [(ifconfigCmd, [InterfaceName network])])
          | Inr out \<Rightarrow>
              let lines = Split out [CHR 0x0A];
                  network =
                    (if length lines > 1 then
                       (let fields = Fields (TrimSpace (lines ! 1))
                        in if length fields > 4
                           then network\<lparr>SubnetMask := ParseIP n (fields ! 4)\<rparr>
                           else network)
                     else network)
              in getLinux_lease n w network
                   (cmds @ [(ifconfigCmd, [InterfaceName network])])))"

text \<open>\<open>getLinux\<close>.\<close>

definition getLinux ::
  "netpkg \<Rightarrow> os \<Rightarrow> Network \<Rightarrow> error option \<times> Network \<times> command list" where
  "getLinux n w network =
     (let ipCmd = findCommand w ''ip'' [''/bin/ip'', ''/sbin/ip'', ''/usr/bin/ip'', ''/usr/sbin/ip'']
      in if ipCmd = '''' then (Some (Error ''ip command not found''), network, [])
         else
           (case Output w ipCmd [''route'', ''get'', ''8.8.8.8''] of
              Inl err \<Rightarrow> (Some err, network, [(ipCmd, [''route'', ''get'', ''8.8.8.8''])])
            | Inr out \<Rightarrow>
                let parts = Fields out
                in if length parts < 7
                   then (Some (Error ''unexpected ip route output format''), network,
                         [(ipCmd, [''route'', ''get'', ''8.8.8.8''])])
                   else
                     let network = network\<lparr>DefaultGateway := ParseIP n (parts ! 2),
                                            InterfaceName := parts ! 4,
                                            LocalIP := ParseIP n (parts ! 6)\<rparr>
                     in (case InterfaceByName w (InterfaceName network) of
                           Inl err \<Rightarrow>
                             (Some err, network, [(ipCmd, [''route'', ''get'', ''8.8.8.8''])])
                         | Inr interf \<Rightarrow>
                             getLinux_ifconfig n w
                               (network\<lparr>HardwareAddress := HardwareAddr interf,
                                        Interface := Some interf\<rparr>)
                               [(ipCmd, [''route'', ''get'', ''8.8.8.8''])])))"

subsection \<open>Windows\<close>

text \<open>The body of the loop of \<open>getWindows\<close> over the sections of \<open>ipconfig /all\<close>.\<close>

definition gateway_line :: "netpkg \<Rightarrow> Network \<Rightarrow> string \<Rightarrow> Network" where
  "gateway_line n network line =
     (if Contains line ''Default Gateway'' then
        (let parts = Split line '':''
         in if length parts = 2 then
              (case ParseIP n (TrimSpace (parts ! 1)) of
                 Some ip \<Rightarrow> network\<lparr>DefaultGateway := Some ip\<rparr>
               | None \<Rightarrow> network)
            else network)
      else network)"

definition adapter_item :: "netpkg \<Rightarrow> Network \<Rightarrow> string \<Rightarrow> Network" where
  "adapter_item n network item =
     (let lines = Split item [CHR 0x0D, CHR 0x0A];
          network =
            (if HasPrefix item (InterfaceName network) then
               (let network = network\<lparr>DNS := extractDotted lines ''DNS Servers''\<rparr>;
                    network =
                      (if Suffix network = '''' then
                         (let suffixes = extractDotted lines ''Connection-specific DNS Suffix''
                          in if length suffixes > 0
                             then network\<lparr>Suffix := suffixes ! 0\<rparr> else network)
                       else network);
                    subnetMasks = extractDotted lines ''Subnet Mask''
                in if length subnetMasks > 0
                   then network\<lparr>SubnetMask := ParseIP n (subnetMasks ! 0)\<rparr>
                   else network)
             else network)
      in foldl (gateway_line n) network lines)"

definition getWindows ::
  "netpkg \<Rightarrow> os \<Rightarrow> Network \<Rightarrow> error option \<times> Network \<times> command list" where
  "getWindows n w network =
     (case Output w ''ipconfig'' [''/all''] of
        Inl err \<Rightarrow> (Some err, network, [(''ipconfig'', [''/all''])])
      | Inr out \<Rightarrow>
          let items = Split out ''Ethernet adapter '';
              network = foldl (adapter_item n) network items
          in (case DefaultGateway network of
                None \<Rightarrow> (None, network, [(''ipconfig'', [''/all''])])
              | Some gateway \<Rightarrow>
                  (case Output w ''arp'' [''-a'', IPString n gateway] of
                     Inl err \<Rightarrow>
                       (Some err, network,
                        [(''ipconfig'', [''/all'']), (''arp'', [''-a'', IPString n gateway])])
                   | Inr out \<Rightarrow>
                       let chunks = Split out (IPString n gateway);
                           network =
                             (if length chunks \<ge> 3 then
                                (let fields = Fields (chunks ! 2)
                                 in if length fields > 0
                                    then network\<lparr>DefaultGatewayHardwareAddress :=
                                                   ParseMAC_or_nil n (fields ! 0)\<rparr>
                                    else network)
                              else network)
                       in (None, network,
                           [(''ipconfig'', [''/all'']),
                            (''arp'', [''-a'', IPString n gateway])]))))"

subsection \<open>The cache\<close>

text \<open>
  The package variable \<open>instance\<close> (here \<open>instance'\<close>) is a pointer to a \<open>Network\<close>. The \<open>Network\<close> values
  that \<open>GetConfig\<close> has allocated are the list \<open>heap\<close>, never shortened, and a pointer is
  the position of its \<open>Network\<close> in that list: two pointers are the same pointer exactly
  when they are the same number. \<open>None\<close> is \<open>nil\<close>. The mutex makes each call run alone, so
  a call is a function from the state before to the state after.
\<close>

record cache =
  instance' :: "nat option"
  heap :: "Network list"

text \<open>
  The loops of \<open>GetConfig\<close> over the interfaces and their addresses, on Windows. The
  local address of the UDP connection is \<open>DialUDP\<close>: an error of \<open>net.Dial\<close>, or
  \<open>None\<close> when the address is not a \<open>*net.UDPAddr\<close>, or its IP.
\<close>

definition match_interface :: "netpkg \<Rightarrow> Network \<Rightarrow> Interface \<Rightarrow> Network" where
  "match_interface n network interf =
     (case Addrs interf of
        Inl err \<Rightarrow> network
      | Inr addrs \<Rightarrow>
          foldl (\<lambda>network addr.
                   if Contains addr (case LocalIP network of
                                       None \<Rightarrow> ''<nil>''
                                     | Some ip \<Rightarrow> IPString n ip)
                   then network\<lparr>InterfaceName := Name interf,
                                HardwareAddress := HardwareAddr interf,
                                Interface := Some interf\<rparr>
                   else network)
                network addrs)"

text \<open>The platform branch of \<open>GetConfig\<close>: what fills the new \<open>Network\<close>.\<close>

definition discover ::
  "netpkg \<Rightarrow> os \<Rightarrow> error option \<times> Network \<times> command list" where
  "discover n w =
     (if windows w then
        (case DialUDP w of
           Inl err \<Rightarrow> (Some err, empty_Network, [])
         | Inr None \<Rightarrow> (Some (Error ''failed to get local UDP address''), empty_Network, [])
         | Inr (Some ip) \<Rightarrow>
             (case Interfaces w of
                Inl err \<Rightarrow>
                  (Some (Error (''failed to get network interfaces: '' @ message err)),
                   empty_Network\<lparr>LocalIP := Some ip\<rparr>, [])
              | Inr interfaces \<Rightarrow>
                  getWindows n w
                    (foldl (match_interface n) (empty_Network\<lparr>LocalIP := Some ip\<rparr>)
                       interfaces)))
      else getLinux n w empty_Network)"

text \<open>
  \<open>GetConfig\<close> returns the error or the pointer, the state after the call and the
  commands it has run.
\<close>

definition GetConfig ::
  "netpkg \<Rightarrow> os \<Rightarrow> cache \<Rightarrow> (error + nat) \<times> cache \<times> command list" where
  "GetConfig n w st =
     (case instance' st of
        Some p \<Rightarrow> (Inr p, st, [])
      | None \<Rightarrow>
          (case discover n w of
             (Some err, network, cmds) \<Rightarrow> (Inl err, st, cmds)
           | (None, network, cmds) \<Rightarrow>
               (Inr (length (heap st)),
                st\<lparr>instance' := Some (length (heap st)), heap := heap st @ [network]\<rparr>,
                cmds)))"

definition RefreshConfig ::
  "netpkg \<Rightarrow> os \<Rightarrow> cache \<Rightarrow> (error + nat) \<times> cache \<times> command list" where
  "RefreshConfig n w st = GetConfig n w (st\<lparr>instance' := None\<rparr>)"

text \<open>
  The state of the program at its start, and a run of calls from it: every state the
  package can be in is the state after some list of calls.
\<close>

definition initial_cache :: cache where
  "initial_cache = \<lparr>instance' = None, heap = []\<rparr>"

datatype call = CallGetConfig netpkg os | CallRefreshConfig netpkg os

fun do_call :: "call \<Rightarrow> cache \<Rightarrow> (error + nat) \<times> cache \<times> command list" where
  "do_call (CallGetConfig n w) st = GetConfig n w st"
| "do_call (CallRefreshConfig n w) st = RefreshConfig n w st"

fun run :: "call list \<Rightarrow> cache \<Rightarrow> cache" where
  "run [] st = st"
| "run (c # cs) st = run cs (fst (snd (do_call c st)))"

text \<open>What a list of calls of \<open>GetConfig\<close>, one after the other, returns.\<close>

fun GetConfig_results :: "(netpkg \<times> os) list \<Rightarrow> cache \<Rightarrow> (error + nat) list" where
  "GetConfig_results [] st = []"
| "GetConfig_results ((n, w) # rest) st =
     fst (GetConfig n w st) # GetConfig_results rest (fst (snd (GetConfig n w st)))"

subsection \<open>Machines to run the discovery on\<close>

definition config_net :: netpkg where
  "config_net =
     \<lparr>ParseIP = (\<lambda>s. if s = ''192.168.1.1'' then Some [192, 168, 1, 1]
                       else if s = ''192.168.1.5'' then Some [192, 168, 1, 5]
                       else if s = ''255.255.255.0'' then Some [255, 255, 255, 0]
                       else None),
      To4 = (\<lambda>ip. if length ip = 4 then Some ip else None),
      ParseMAC = (\<lambda>s. if s = ''aa:bb:cc:dd:ee:ff''
                        then Inr [170, 187, 204, 221, 238, 255]
                        else Inl (Error ''invalid MAC address'')),
      IPString = (\<lambda>ip. if ip = [192, 168, 1, 1] then ''192.168.1.1''
                        else if ip = [192, 168, 1, 5] then ''192.168.1.5''
                        else if ip = [10, 8, 0, 2] then ''10.8.0.2''
                        else ''?'')\<rparr>"

text \<open>A machine with Linux, one Ethernet interface \<open>eth0\<close> and a DHCP lease.\<close>

definition linux_config :: os where
  "linux_config =
     \<lparr>windows = False,
      LookPath = (\<lambda>file. if file = ''/bin/ip'' \<or> file = ''/sbin/ifconfig'' then Inr file
                          else Inl (Error ''executable file not found'')),
      CombinedOutput = (\<lambda>name args. ('''', Some (Error ''executable file not found''))),
      Output = (\<lambda>name args.
        if name = ''/bin/ip'' then
          Inr ''8.8.8.8 via 192.168.1.1 dev eth0 src 192.168.1.5 uid 1000''
        else if name = ''/sbin/ifconfig'' then
          Inr (''eth0: flags=4163<UP,BROADCAST,RUNNING,MULTICAST>  mtu 1500'' @ [CHR 0x0A]
               @ ''        inet 192.168.1.5  netmask 255.255.255.0  broadcast 192.168.1.255''
               @ [CHR 0x0A])
        else if name = ''grep'' then
          Inr (''  option domain-name-servers 192.168.1.1,8.8.8.8;'' @ [CHR 0x0A]
               @ ''  option domain-name lan;'' @ [CHR 0x0A])
        else if name = ''arp'' then
          Inr (''Address HWtype HWaddress Flags Mask Iface'' @ [CHR 0x0A]
               @ ''192.168.1.1 ether aa:bb:cc:dd:ee:ff C eth0'' @ [CHR 0x0A])
        else Inl (Error ''executable file not found'')),
      InterfaceByName = (\<lambda>name.
        if name = ''eth0''
        then Inr \<lparr>Name = ''eth0'', HardwareAddr = [0, 17, 34, 51, 68, 85],
                  Addrs = Inr [''192.168.1.5/24'']\<rparr>
        else Inl (Error ''no such network interface'')),
      Interfaces = Inr [\<lparr>Name = ''eth0'', HardwareAddr = [0, 17, 34, 51, 68, 85],
                         Addrs = Inr [''192.168.1.5/24'']\<rparr>],
      DialUDP = Inr (Some [192, 168, 1, 5]),
      PathJoin = (\<lambda>dir file. dir @ ''/'' @ file)\<rparr>"

text \<open>
  The same machine where \<open>ip route\<close> names the interface \<open>eth0;id\<close> and the system
  knows an interface of that name.
\<close>

definition linux_injection :: os where
  "linux_injection =
     linux_config
       \<lparr>Output := (\<lambda>name args.
          if name = ''/bin/ip'' then
            Inr ''8.8.8.8 via 192.168.1.1 dev eth0;id src 192.168.1.5 uid 1000''
          else Output linux_config name args),
        InterfaceByName := (\<lambda>name.
          if name = ''eth0;id''
          then Inr \<lparr>Name = ''eth0;id'', HardwareAddr = [0, 17, 34, 51, 68, 85],
                    Addrs = Inr [''192.168.1.5/24'']\<rparr>
          else Inl (Error ''no such network interface''))\<rparr>"

text \<open>
  A machine with Windows whose route to the Internet is a tunnel: the adapter \<open>wg0\<close>
  has the local address and no hardware address.
\<close>

definition windows_tunnel :: os where
  "windows_tunnel =
     \<lparr>windows = True,
      LookPath = (\<lambda>file. Inl (Error ''executable file not found'')),
      CombinedOutput = (\<lambda>name args. ('''', Some (Error ''executable file not found''))),
      Output = (\<lambda>name args.
        if name = ''ipconfig'' then
          Inr (''Windows IP Configuration'' @ [CHR 0x0D, CHR 0x0A]
               @ [CHR 0x0D, CHR 0x0A]
               @ ''Unknown adapter wg0:'' @ [CHR 0x0D, CHR 0x0A]
               @ [CHR 0x0D, CHR 0x0A]
               @ ''   IPv4 Address. . . . . . . . . . . : 10.8.0.2(Preferred)''
               @ [CHR 0x0D, CHR 0x0A]
               @ ''   Default Gateway . . . . . . . . . :'' @ [CHR 0x0D, CHR 0x0A])
        else Inl (Error ''executable file not found'')),
      InterfaceByName = (\<lambda>name. Inl (Error ''no such network interface'')),
      Interfaces = Inr [\<lparr>Name = ''Loopback Pseudo-Interface 1'', HardwareAddr = [],
                         Addrs = Inr [''127.0.0.1/8'']\<rparr>,
                        \<lparr>Name = ''wg0'', HardwareAddr = [],
                         Addrs = Inr [''10.8.0.2/24'']\<rparr>],
      DialUDP = Inr (Some [10, 8, 0, 2]),
      PathJoin = (\<lambda>dir file. dir @ [CHR 0x5C] @ file)\<rparr>"

text \<open>The cached pointer, if there is one, points into the heap.\<close>

definition cache_wf :: "cache \<Rightarrow> bool" where
  "cache_wf st = (case instance' st of None \<Rightarrow> True | Some p \<Rightarrow> p < length (heap st))"

section \<open>Properties of the dotted-field extractor\<close>

lemma extractDotted_loop_found:
  "extractDotted_loop key r True lines =
     r @ concat (map (\<lambda>c. '','' @ TrimSpace (drop 39 c)) (takeWhile continuation_line lines))"
  by (induction lines arbitrary: r) (auto simp: continuation_line_def)

lemma extractDotted_loop_search:
  "extractDotted_loop key r False lines =
     (case dropWhile (\<lambda>l. \<not> label_line key l) lines of
        [] \<Rightarrow> r
      | l # rest \<Rightarrow> extractDotted_loop key (drop 39 l) True rest)"
  by (induction lines) (auto simp: label_line_def)

lemma split_from_not_Nil: "split_from sep cur s \<noteq> []"
  by (induction sep cur s rule: split_from.induct) (subst split_from.simps, simp)

lemma Split_not_Nil: "sep \<noteq> [] \<Longrightarrow> Split s sep \<noteq> []"
  by (simp add: Split_def split_from_not_Nil)

lemma Split_comma_empty: "Split (Trim '''' '','') '','' = ['''']"
  by code_simp

lemma extractDotted_refines: "extractDotted lines key = extract_contract lines key"
proof (cases "dropWhile (\<lambda>l. \<not> label_line key l) lines")
  case Nil
  then show ?thesis
    unfolding extractDotted_def extract_contract_def extractDotted_loop_search
    by (simp only: list.case Split_comma_empty)
next
  case (Cons l rest)
  then show ?thesis
    unfolding extractDotted_def extract_contract_def extractDotted_loop_search
    by (simp only: list.case extractDotted_loop_found)
qed

lemma extractDotted_not_Nil: "extractDotted lines key \<noteq> []"
  unfolding extractDotted_def by (rule Split_not_Nil) simp

lemma extractDotted_missing:
  assumes "\<forall>l \<in> set lines. \<not> label_line key l"
  shows "extractDotted lines key = ['''']"
proof -
  from assms have "dropWhile (\<lambda>l. \<not> label_line key l) lines = []" by simp
  then show ?thesis
    unfolding extractDotted_refines extract_contract_def by (simp only: list.case)
qed

text \<open>
  C4, as stated: \<open>extract\<close> of the two lines with label \<open>Key\<close> is \<open>["8.8.8.8", "8.8.4.4"]\<close>.
  In the first of these lines the value starts at offset 43, not 39, so the extractor
  returns the text from offset 39 on, \<open>. : 8.8.8.8\<close>, as the first value.
\<close>

theorem extractDotted_Key_example_counterexample:
  "extractDotted [''   Key . . . . . . . . . . . . . . . . . : 8.8.8.8'',
                  ''                                        8.8.4.4''] ''Key''
   \<noteq> [''8.8.8.8'', ''8.8.4.4'']"
  by code_simp

text \<open>
  C4, amended: for every list of lines and every label, \<open>extractDotted\<close> takes the first
  line that starts with three blanks followed by the label and is longer than 39 bytes,
  reads its bytes from offset 39 on as the first value, appends the trimmed rest of each
  immediately following line that is longer than 39 bytes and blank in its first 39,
  stops at the first other line, drops commas at both ends of the comma-joined values
  and cuts the text at every comma. The result is never the empty list, and it is
  \<open>[""]\<close> when no line has the label. On the adapter listing whose value column is at
  offset 39 it returns \<open>["8.8.8.8", "8.8.4.4"]\<close>; on the lines with label \<open>Key\<close> it
  returns \<open>[". : 8.8.8.8", "8.8.4.4"]\<close>.
\<close>

theorem extractDotted_contract:
  "extractDotted lines key = extract_contract lines key
   \<and> extractDotted lines key \<noteq> []
   \<and> ((\<forall>l \<in> set lines. \<not> label_line key l) \<longrightarrow> extractDotted lines key = [''''])
   \<and> extractDotted [''   DNS Servers . . . . . . . . . . . : 8.8.8.8'',
                     ''                                        8.8.4.4''] ''DNS Servers''
       = [''8.8.8.8'', ''8.8.4.4'']
   \<and> extractDotted [''   Key . . . . . . . . . . . . . . . . . : 8.8.8.8'',
                     ''                                        8.8.4.4''] ''Key''
       = [''. : 8.8.8.8'', ''8.8.4.4'']"
proof -
  have dns: "extractDotted [''   DNS Servers . . . . . . . . . . . : 8.8.8.8'',
                     ''                                        8.8.4.4''] ''DNS Servers''
       = [''8.8.8.8'', ''8.8.4.4'']"
    by code_simp
  have key: "extractDotted [''   Key . . . . . . . . . . . . . . . . . : 8.8.8.8'',
                     ''                                        8.8.4.4''] ''Key''
       = [''. : 8.8.8.8'', ''8.8.4.4'']"
    by code_simp
  show ?thesis
    using extractDotted_refines extractDotted_not_Nil extractDotted_missing dns key
    by blast
qed

theorem extractDotted_contract_witness:
  "\<not> label_line ''NonExistent'' ''   Description . . . . . . . . . . . : Ethernet Adapter''
   \<and> \<not> label_line ''NonExistent'' ''   Default Gateway . . . . . . . . . : 192.168.1.1''
   \<and> extractDotted [''   Description . . . . . . . . . . . : Ethernet Adapter'',
                     ''   Default Gateway . . . . . . . . . : 192.168.1.1''] ''NonExistent''
       = ['''']"
proof -
  have h1: "\<not> label_line ''NonExistent''
      ''   Description . . . . . . . . . . . : Ethernet Adapter''"
    by (simp add: label_line_def HasPrefix_def)
  have h2: "\<not> label_line ''NonExistent''
      ''   Default Gateway . . . . . . . . . : 192.168.1.1''"
    by (simp add: label_line_def HasPrefix_def)
  have "\<forall>l \<in> set [''   Description . . . . . . . . . . . : Ethernet Adapter'',
                 ''   Default Gateway . . . . . . . . . : 192.168.1.1''].
      \<not> label_line ''NonExistent'' l"
    using h1 h2 by simp
  then show ?thesis
    using h1 h2 extractDotted_contract
      [of "[''   Description . . . . . . . . . . . : Ethernet Adapter'',
            ''   Default Gateway . . . . . . . . . : 192.168.1.1'']" "''NonExistent''"]
    by blast
qed

section \<open>Properties of DNS resolution\<close>

lemma nth_filter_upt_Cons:
  "map ((!) (x # xs)) (filter P [0..<Suc (length xs)]) =
     (if P 0 then [x] else []) @ map ((!) xs) (filter (\<lambda>i. P (Suc i)) [0..<length xs])"
proof -
  have "[0..<Suc (length xs)] = 0 # map Suc [0..<length xs]"
    by (simp add: upt_conv_Cons map_Suc_upt del: upt_Suc)
  then show ?thesis
    by (simp add: filter_map comp_def del: upt_Suc)
qed

lemma unique_loop_first_occurrences:
  assumes "\<forall>x. (uniqueIPs x = Some True) = (x \<in> S)"
  shows "unique_loop uniqueIPs result ips =
           result @ map ((!) ips) (filter (\<lambda>i. ips ! i \<notin> S \<union> set (take i ips)) [0..<length ips])"
  using assms
proof (induction ips arbitrary: uniqueIPs result S)
  case Nil
  then show ?case by simp
next
  case (Cons ip ips)
  show ?case
  proof (cases "ip \<in> S")
    case True
    then have seen: "uniqueIPs ip = Some True" using Cons.prems by simp
    have same: "\<And>i. (ips ! i \<notin> S \<and> ips ! i \<noteq> ip \<and> ips ! i \<notin> set (take i ips))
        = (ips ! i \<notin> S \<and> ips ! i \<notin> set (take i ips))"
      using True by auto
    have "unique_loop uniqueIPs result (ip # ips) = unique_loop uniqueIPs result ips"
      using seen by simp
    also have "\<dots> = result @ map ((!) ips)
        (filter (\<lambda>i. ips ! i \<notin> S \<union> set (take i ips)) [0..<length ips])"
      by (rule Cons.IH [OF Cons.prems])
    also have "\<dots> = result @ map ((!) (ip # ips))
        (filter (\<lambda>i. (ip # ips) ! i \<notin> S \<union> set (take i (ip # ips))) [0..<Suc (length ips)])"
      using True by (simp add: nth_filter_upt_Cons same del: upt_Suc)
    finally show ?thesis by simp
  next
    case False
    then have fresh: "uniqueIPs ip \<noteq> Some True" using Cons.prems by simp
    have inv: "\<forall>x. ((uniqueIPs(ip \<mapsto> True)) x = Some True) = (x \<in> insert ip S)"
      using Cons.prems by auto
    have same: "\<And>i. (ips ! i \<noteq> ip \<and> ips ! i \<notin> S \<and> ips ! i \<notin> set (take i ips))
        = (ips ! i \<notin> S \<and> ips ! i \<noteq> ip \<and> ips ! i \<notin> set (take i ips))"
      by auto
    have "unique_loop uniqueIPs result (ip # ips)
        = unique_loop (uniqueIPs(ip \<mapsto> True)) (result @ [ip]) ips"
      using fresh by simp
    also have "\<dots> = (result @ [ip]) @ map ((!) ips)
        (filter (\<lambda>i. ips ! i \<notin> insert ip S \<union> set (take i ips)) [0..<length ips])"
      by (rule Cons.IH [OF inv])
    also have "\<dots> = result @ map ((!) (ip # ips))
        (filter (\<lambda>i. (ip # ips) ! i \<notin> S \<union> set (take i (ip # ips))) [0..<Suc (length ips)])"
      using False by (simp add: nth_filter_upt_Cons same del: upt_Suc)
    finally show ?thesis by simp
  qed
qed

lemma unique_loop_empty:
  "unique_loop Map.empty [] ips =
     map ((!) ips) (filter (\<lambda>i. ips ! i \<notin> set (take i ips)) [0..<length ips])"
  using unique_loop_first_occurrences [of Map.empty "{}" "[]" ips] by simp

lemma first_occurrences_distinct:
  "distinct (map ((!) ips) (filter (\<lambda>i. ips ! i \<notin> set (take i ips)) [0..<length ips]))"
proof -
  have "inj_on ((!) ips) {i. i < length ips \<and> ips ! i \<notin> set (take i ips)}"
  proof (rule inj_onI)
    fix i j
    assume i: "i \<in> {i. i < length ips \<and> ips ! i \<notin> set (take i ips)}"
      and j: "j \<in> {i. i < length ips \<and> ips ! i \<notin> set (take i ips)}"
      and eq: "ips ! i = ips ! j"
    show "i = j"
    proof (rule ccontr)
      assume "i \<noteq> j"
      then consider "i < j" | "j < i" by linarith
      then show False
      proof cases
        case 1
        then have "ips ! i \<in> set (take j ips)"
          using i j by (metis (no_types, lifting) in_set_conv_nth length_take mem_Collect_eq min.absorb2 less_imp_le nth_take)
        then show False using j eq by simp
      next
        case 2
        then have "ips ! j \<in> set (take i ips)"
          using i j by (metis (no_types, lifting) in_set_conv_nth length_take mem_Collect_eq min.absorb2 less_imp_le nth_take)
        then show False using i eq by simp
      qed
    qed
  qed
  then show ?thesis
    by (simp add: distinct_map) 
qed

lemma addr_loop_Domain: "Domain (addr_loop n records addrs) = Domain records"
  by (induction addrs arbitrary: records) (auto split: option.splits)

lemma drop_last_byte: "s \<noteq> [] \<Longrightarrow> drop (length s - Suc 0) s = [last s]"
  by (induction s rule: rev_induct) simp_all

lemma take_butlast_byte: "take (length s - Suc 0) s = butlast s"
  by (simp add: butlast_conv_take)

lemma HasSuffix_slash: "HasSuffix s ''/'' = (s \<noteq> [] \<and> last s = CHR ''/'')"
proof (cases "s = []")
  case True
  then show ?thesis by (simp add: HasSuffix_def)
next
  case False
  then have "Suc 0 \<le> length s" by (cases s) simp_all
  with False show ?thesis by (simp add: HasSuffix_def drop_last_byte)
qed

lemma TrimPrefix_http:
  "TrimPrefix d ''http://'' = (if take 7 d = ''http://'' then drop 7 d else d)"
proof -
  have "length ''http://'' = 7" by simp
  then show ?thesis by (simp only: TrimPrefix_def HasPrefix_def)
qed

lemma TrimPrefix_https:
  "TrimPrefix d ''https://'' = (if take 8 d = ''https://'' then drop 8 d else d)"
proof -
  have "length ''https://'' = 8" by simp
  then show ?thesis by (simp only: TrimPrefix_def HasPrefix_def)
qed

lemma TrimSuffix_slash:
  "TrimSuffix d ''/'' = (if d \<noteq> [] \<and> last d = CHR ''/'' then butlast d else d)"
proof -
  have "length ''/'' = Suc 0" by simp
  then show ?thesis by (simp only: TrimSuffix_def HasSuffix_slash take_butlast_byte)
qed

lemma clean_domain_stripped: "clean_domain d = stripped d"
  by (simp only: clean_domain_def stripped_def TrimPrefix_http TrimPrefix_https
      TrimSuffix_slash Let_def)

lemma take_append_slash:
  assumes "take k (h @ ''/'') = p @ ''/''" and "length p = k - 1" and "0 < k"
    and "take k h \<noteq> p @ ''/''"
  shows "h = p"
proof (cases "k \<le> length h")
  case True
  then have "take k (h @ ''/'') = take k h" by simp
  with assms show ?thesis by simp
next
  case False
  then have "take k (h @ ''/'') = h @ ''/''" by simp
  with assms show ?thesis by simp
qed

lemma stripped_host:
  assumes "take 7 h \<noteq> ''http://''" and "take 8 h \<noteq> ''https://''"
    and "h = '''' \<or> last h \<noteq> CHR ''/''"
  shows "stripped h = h" and "stripped (''http://'' @ h) = h"
    and "stripped (''https://'' @ h) = h" and "stripped (h @ ''/'') = h"
    and "stripped (''http://'' @ h @ ''/'') = h" and "stripped (''https://'' @ h @ ''/'') = h"
proof -
  have no_http: "take 7 (h @ ''/'') \<noteq> ''http://''"
  proof
    assume "take 7 (h @ ''/'') = ''http://''"
    then have "take 7 (h @ ''/'') = ''http:/'' @ ''/''" by simp
    then have "h = ''http:/''"
      using assms(1) by (intro take_append_slash [of 7 h "''http:/''"]) simp_all
    with assms(3) show False by simp
  qed
  have no_https: "take 8 (h @ ''/'') \<noteq> ''https://''"
  proof
    assume "take 8 (h @ ''/'') = ''https://''"
    then have "take 8 (h @ ''/'') = ''https:/'' @ ''/''" by simp
    then have "h = ''https:/''"
      using assms(2) by (intro take_append_slash [of 8 h "''https:/''"]) simp_all
    with assms(3) show False by simp
  qed
  show "stripped h = h"
    using assms by (auto simp: stripped_def)
  show "stripped (''http://'' @ h) = h"
    using assms by (auto simp: stripped_def)
  show "stripped (''https://'' @ h) = h"
    using assms by (auto simp: stripped_def)
  show "stripped (h @ ''/'') = h"
    using no_http no_https by (simp add: stripped_def)
  show "stripped (''http://'' @ h @ ''/'') = h"
    using no_https by (simp add: stripped_def)
  show "stripped (''https://'' @ h @ ''/'') = h"
    by (simp add: stripped_def)
qed

lemma Resolve_Domain:
  assumes "domain \<noteq> ''''"
  shows "\<exists>records. fst (Resolve n r domain) = Inr records
           \<and> Domain records = stripped domain"
  using assms
  by (simp add: Resolve_def Let_def addr_loop_Domain clean_domain_stripped split: sum.splits)

lemma Resolve_queries:
  assumes "domain \<noteq> ''''"
  shows "snd (Resolve n r domain) =
           [QHost (stripped domain), QCNAME (stripped domain),
            QMX (stripped domain), QNS (stripped domain),
            QTXT (stripped domain), QNS (stripped domain)]
           @ (if ParseIP n (stripped domain) \<noteq> None
              then [QAddr (stripped domain)] else [])"
  using assms by (simp add: Resolve_def Let_def clean_domain_stripped)

lemma NSLookup_queries:
  assumes "domain \<noteq> ''''"
  shows "snd (NSLookup r domain) = [QHost (stripped domain)]"
  using assms by (simp add: NSLookup_def Let_def clean_domain_stripped split: sum.splits)

lemma NSLookup_clean:
  assumes "d1 \<noteq> ''''" and "d2 \<noteq> ''''" and "stripped d1 = stripped d2"
  shows "NSLookup r d1 = NSLookup r d2"
  using assms by (simp add: NSLookup_def Let_def clean_domain_stripped)

lemma Resolve_clean:
  assumes "d1 \<noteq> ''''" and "d2 \<noteq> ''''" and "stripped d1 = stripped d2"
  shows "Resolve n r d1 = Resolve n r d2"
  using assms by (simp add: Resolve_def Let_def clean_domain_stripped)

lemma NSLookup_result:
  assumes "fst (NSLookup r domain) = Inr ips"
  shows "\<exists>answer. LookupHost r (stripped domain) = Inr answer
           \<and> ips = map ((!) answer)
                      (filter (\<lambda>i. answer ! i \<notin> set (take i answer)) [0..<length answer])"
  using assms
  by (auto simp: NSLookup_def Let_def unique_loop_empty clean_domain_stripped
      split: if_splits sum.splits)

text \<open>
  C9: \<open>NSLookup\<close> and \<open>Resolve\<close> return the input error for the empty domain without
  any call to the resolver. For a non-empty domain every call to the resolver asks about
  the stripped domain, which is also the \<open>Domain\<close> of the record set: a leading
  \<open>http://\<close> is removed, then a leading \<open>https://\<close>, then one trailing \<open>/\<close>. So for a
  host \<open>h\<close> that has no such prefix and no trailing \<open>/\<close>, the inputs \<open>http://h\<close>,
  \<open>https://h\<close>, \<open>h/\<close>, \<open>http://h/\<close> and \<open>https://h/\<close> are all stripped to \<open>h\<close> and give
  the results of \<open>h\<close>, and any two non-empty inputs that are equal after stripping give
  the same results. The list \<open>NSLookup\<close> returns has no duplicates: it holds, in the
  resolver's order, exactly the entries of the answer that do not occur earlier in the
  answer.
\<close>

theorem dns_lookup_normalised:
  "NSLookup r '''' = (Inl (Error ''domain cannot be empty''), [])
   \<and> Resolve n r '''' = (Inl (Error ''domain cannot be empty''), [])
   \<and> (domain \<noteq> '''' \<longrightarrow>
        snd (NSLookup r domain) = [QHost (stripped domain)]
        \<and> snd (Resolve n r domain) =
            [QHost (stripped domain), QCNAME (stripped domain),
             QMX (stripped domain), QNS (stripped domain),
             QTXT (stripped domain), QNS (stripped domain)]
            @ (if ParseIP n (stripped domain) \<noteq> None
               then [QAddr (stripped domain)] else [])
        \<and> (\<exists>records. fst (Resolve n r domain) = Inr records
              \<and> Domain records = stripped domain))
   \<and> (take 7 h \<noteq> ''http://'' \<and> take 8 h \<noteq> ''https://''
        \<and> h \<noteq> '''' \<and> last h \<noteq> CHR ''/'' \<longrightarrow>
        stripped h = h \<and> stripped (''http://'' @ h) = h \<and> stripped (''https://'' @ h) = h
        \<and> stripped (h @ ''/'') = h \<and> stripped (''http://'' @ h @ ''/'') = h
        \<and> stripped (''https://'' @ h @ ''/'') = h
        \<and> NSLookup r (''http://'' @ h) = NSLookup r h
        \<and> NSLookup r (''https://'' @ h) = NSLookup r h
        \<and> NSLookup r (h @ ''/'') = NSLookup r h
        \<and> NSLookup r (''http://'' @ h @ ''/'') = NSLookup r h
        \<and> NSLookup r (''https://'' @ h @ ''/'') = NSLookup r h
        \<and> Resolve n r (''http://'' @ h) = Resolve n r h
        \<and> Resolve n r (''https://'' @ h) = Resolve n r h
        \<and> Resolve n r (h @ ''/'') = Resolve n r h
        \<and> Resolve n r (''http://'' @ h @ ''/'') = Resolve n r h
        \<and> Resolve n r (''https://'' @ h @ ''/'') = Resolve n r h)
   \<and> (d1 \<noteq> '''' \<and> d2 \<noteq> '''' \<and> stripped d1 = stripped d2 \<longrightarrow>
        NSLookup r d1 = NSLookup r d2 \<and> Resolve n r d1 = Resolve n r d2)
   \<and> (fst (NSLookup r domain) = Inr ips \<longrightarrow>
        distinct ips
        \<and> (\<exists>answer. LookupHost r (stripped domain) = Inr answer
              \<and> ips = map ((!) answer)
                         (filter (\<lambda>i. answer ! i \<notin> set (take i answer))
                                 [0..<length answer])))"
proof (intro conjI impI)
  show "NSLookup r [] = (Inl (Error ''domain cannot be empty''), [])"
    by (simp add: NSLookup_def)
  show "Resolve n r [] = (Inl (Error ''domain cannot be empty''), [])"
    by (simp add: Resolve_def)
next
  assume "domain \<noteq> []"
  then show "snd (NSLookup r domain) = [QHost (stripped domain)]"
    by (rule NSLookup_queries)
next
  assume "domain \<noteq> []"
  then show "snd (Resolve n r domain) =
            [QHost (stripped domain), QCNAME (stripped domain),
             QMX (stripped domain), QNS (stripped domain),
             QTXT (stripped domain), QNS (stripped domain)]
            @ (if ParseIP n (stripped domain) \<noteq> None
               then [QAddr (stripped domain)] else [])"
    by (rule Resolve_queries)
next
  assume "domain \<noteq> []"
  then show "\<exists>records. fst (Resolve n r domain) = Inr records
              \<and> Domain records = stripped domain"
    by (rule Resolve_Domain)
next
  assume a: "take 7 h \<noteq> ''http://'' \<and> take 8 h \<noteq> ''https://''
        \<and> h \<noteq> [] \<and> last h \<noteq> CHR ''/''"
  then have h: "take 7 h \<noteq> ''http://''" "take 8 h \<noteq> ''https://''"
    "h = [] \<or> last h \<noteq> CHR ''/''" "h \<noteq> []"
    by simp_all
  note s = stripped_host [OF h(1) h(2) h(3)]
  show "stripped h = h" by (rule s(1))
  show "stripped (''http://'' @ h) = h" by (rule s(2))
  show "stripped (''https://'' @ h) = h" by (rule s(3))
  show "stripped (h @ ''/'') = h" by (rule s(4))
  show "stripped (''http://'' @ h @ ''/'') = h" by (rule s(5))
  show "stripped (''https://'' @ h @ ''/'') = h" by (rule s(6))
  show "NSLookup r (''http://'' @ h) = NSLookup r h"
    using h(4) by (intro NSLookup_clean) (simp_all only: s, simp_all)
  show "NSLookup r (''https://'' @ h) = NSLookup r h"
    using h(4) by (intro NSLookup_clean) (simp_all only: s, simp_all)
  show "NSLookup r (h @ ''/'') = NSLookup r h"
    using h(4) by (intro NSLookup_clean) (simp_all only: s, simp_all)
  show "NSLookup r (''http://'' @ h @ ''/'') = NSLookup r h"
    using h(4) by (intro NSLookup_clean) (simp_all only: s, simp_all)
  show "NSLookup r (''https://'' @ h @ ''/'') = NSLookup r h"
    using h(4) by (intro NSLookup_clean) (simp_all only: s, simp_all)
  show "Resolve n r (''http://'' @ h) = Resolve n r h"
    using h(4) by (intro Resolve_clean) (simp_all only: s, simp_all)
  show "Resolve n r (''https://'' @ h) = Resolve n r h"
    using h(4) by (intro Resolve_clean) (simp_all only: s, simp_all)
  show "Resolve n r (h @ ''/'') = Resolve n r h"
    using h(4) by (intro Resolve_clean) (simp_all only: s, simp_all)
  show "Resolve n r (''http://'' @ h @ ''/'') = Resolve n r h"
    using h(4) by (intro Resolve_clean) (simp_all only: s, simp_all)
  show "Resolve n r (''https://'' @ h @ ''/'') = Resolve n r h"
    using h(4) by (intro Resolve_clean) (simp_all only: s, simp_all)
next
  assume "d1 \<noteq> [] \<and> d2 \<noteq> [] \<and> stripped d1 = stripped d2"
  then show "NSLookup r d1 = NSLookup r d2"
    using NSLookup_clean by blast
next
  assume "d1 \<noteq> [] \<and> d2 \<noteq> [] \<and> stripped d1 = stripped d2"
  then show "Resolve n r d1 = Resolve n r d2"
    using Resolve_clean by blast
next
  assume a: "fst (NSLookup r domain) = Inr ips"
  show "distinct ips"
    using NSLookup_result [OF a] first_occurrences_distinct by auto
  show "\<exists>answer. LookupHost r (stripped domain) = Inr answer
              \<and> ips = map ((!) answer)
                         (filter (\<lambda>i. answer ! i \<notin> set (take i answer))
                                 [0..<length answer])"
    by (rule NSLookup_result [OF a])
qed

text \<open>
  The theorem at the host \<open>example.com\<close> and at the inputs \<open>http://https://x//\<close> and
  \<open>https://http://x\<close>: both prefixes are removed when they come in the first order and
  only \<open>https://\<close> in the second, and only one trailing \<open>/\<close> is removed.
\<close>

theorem dns_lookup_normalised_witness:
  "take 7 ''example.com'' \<noteq> ''http://'' \<and> take 8 ''example.com'' \<noteq> ''https://''
   \<and> ''example.com'' \<noteq> '''' \<and> last ''example.com'' \<noteq> CHR ''/''
   \<and> ''http://https://x//'' \<noteq> ''''
   \<and> NSLookup example_resolver ''http://example.com''
       = NSLookup example_resolver ''example.com''
   \<and> NSLookup example_resolver ''https://example.com/''
       = NSLookup example_resolver ''example.com''
   \<and> Resolve example_net example_resolver ''http://example.com/''
       = Resolve example_net example_resolver ''example.com''
   \<and> snd (NSLookup example_resolver ''http://https://x//'') = [QHost ''x/'']
   \<and> ''https://http://x'' \<noteq> ''''
   \<and> snd (NSLookup example_resolver ''https://http://x'') = [QHost ''http://x'']
   \<and> fst (NSLookup example_resolver ''example.com'') = Inr [''1.1.1.1'', ''2.2.2.2'']
   \<and> distinct [''1.1.1.1'', ''2.2.2.2'']"
proof -
  have h: "take 7 ''example.com'' \<noteq> ''http://'' \<and> take 8 ''example.com'' \<noteq> ''https://''
      \<and> ''example.com'' \<noteq> '''' \<and> last ''example.com'' \<noteq> CHR ''/''"
    by simp
  have ne: "''http://https://x//'' \<noteq> ''''"
    by simp
  have st: "stripped ''http://https://x//'' = ''x/''"
    by (simp add: stripped_def)
  have res: "fst (NSLookup example_resolver ''example.com'') = Inr [''1.1.1.1'', ''2.2.2.2'']"
    by code_simp
  note t1 = dns_lookup_normalised [of example_resolver example_net "''example.com''"
      "''example.com''" "''example.com''" "''example.com''" "[''1.1.1.1'', ''2.2.2.2'']"]
  note t2 = dns_lookup_normalised [of example_resolver example_net "''http://https://x//''"
      "''example.com''" "''example.com''" "''example.com''" "[]"]
  from t1 h have e1: "NSLookup example_resolver (''http://'' @ ''example.com'')
       = NSLookup example_resolver ''example.com''"
    by blast
  from t1 h have e2: "NSLookup example_resolver (''https://'' @ ''example.com'' @ ''/'')
       = NSLookup example_resolver ''example.com''"
    by blast
  from t1 h have e3: "Resolve example_net example_resolver (''http://'' @ ''example.com'' @ ''/'')
       = Resolve example_net example_resolver ''example.com''"
    by blast
  from t2 ne have q: "snd (NSLookup example_resolver ''http://https://x//'')
      = [QHost (stripped ''http://https://x//'')]"
    by blast
  from t1 res have d: "distinct [''1.1.1.1'', ''2.2.2.2'']"
    by blast
  have ne3: "''https://http://x'' \<noteq> ''''"
    by simp
  have st3: "stripped ''https://http://x'' = ''http://x''"
    by (simp add: stripped_def)
  note t3 = dns_lookup_normalised [of example_resolver example_net "''https://http://x''"
      "''example.com''" "''example.com''" "''example.com''" "[]"]
  from t3 ne3 have q3: "snd (NSLookup example_resolver ''https://http://x'')
      = [QHost (stripped ''https://http://x'')]"
    by blast
  show ?thesis
    using h ne res e1 e2 e3 q d ne3 q3 by (simp add: st st3)
qed

section \<open>Properties of Ping\<close>

lemma Ping_options:
  "snd (Ping w host options) =
     (if host = '''' then options else map_option validate_options options)"
  by (simp add: Ping_def Let_def split: prod.splits option.splits)

lemma validate_options_fields:
  "validate_options given =
     \<lparr>Count = (if Count given \<le> 0 then 4 else Count given),
      Timeout = (if Timeout given \<le> 0 then 4000000000 else Timeout given),
      Size = (if Size given \<le> 0 then 32 else Size given)\<rparr>"
  by (cases given) (simp add: validate_options_def Second_def Let_def)

subsection \<open>What the parsers leave alone\<close>






subsection \<open>Parsing twice\<close>












subsection \<open>Ping on the example machines\<close>

lemma Ping_windows_unreachable:
  "fst (Ping windows_unreachable ''10.255.255.1'' None) =
     Inr \<lparr>Host = ''10.255.255.1'', Sent = 4, Received = 0, Lost = 4, PacketLoss = 0,
          MinRTT = 0, MaxRTT = 0, AvgRTT = 0, StdDevRTT = 0, Success = False,
          ErrorMessage = ''failed to ping 10.255.255.1: exit status 1''\<rparr>"
  by code_simp

lemma Ping_no_commands:
  "fst (Ping no_commands ''10.255.255.1'' None) =
     Inr \<lparr>Host = ''10.255.255.1'', Sent = 0, Received = 0, Lost = 0, PacketLoss = 0,
          MinRTT = 0, MaxRTT = 0, AvgRTT = 0, StdDevRTT = 0, Success = False,
          ErrorMessage = ''failed to ping 10.255.255.1: executable file not found''\<rparr>"
  by code_simp



text \<open>
  C5, on the machine with Windows whose \<open>ping\<close> ends with \<open>exit status 1\<close> after four
  packets without answer: \<open>Ping\<close> returns before it computes the packet loss, and the
  parser for Windows never sets it, so the result has \<open>Sent = 4\<close>, \<open>Lost = 4\<close> and
  \<open>PacketLoss = 0\<close>, which is not \<open>Lost / Sent * 100\<close>.
\<close>

theorem Ping_unreachable_packet_loss_not_computed:
  "(\<exists>result. fst (Ping windows_unreachable ''10.255.255.1'' None) = Inr result
      \<and> Sent result = 4 \<and> Received result = 0 \<and> Lost result = 4
      \<and> PacketLoss result = 0
      \<and> PacketLoss result \<noteq> real_of_int (Lost result) / real_of_int (Sent result) * 100)"
  by (simp add: Ping_windows_unreachable)

text \<open>
  C6, on the machine with Linux: a \<open>Size\<close> of 0 is replaced by 32, while the default
  packet size of that platform, as \<open>DefaultPingOptions\<close> returns it, is 56.
\<close>

theorem Ping_size_default_on_linux:
  "\<not> windows linux_reachable
   \<and> snd (Ping linux_reachable ''127.0.0.1''
            (Some \<lparr>Count = 4, Timeout = 4000000000, Size = 0\<rparr>))
       = Some \<lparr>Count = 4, Timeout = 4000000000, Size = 32\<rparr>
   \<and> DefaultPingOptions linux_reachable = \<lparr>Count = 4, Timeout = 4000000000, Size = 56\<rparr>"
  by (simp add: Ping_options validate_options_fields DefaultPingOptions_def Second_def
      linux_reachable_def)




section \<open>Properties of the configuration cache\<close>

lemma GetConfig_cached:
  "instance' st = Some p \<Longrightarrow> GetConfig n w st = (Inr p, st, [])"
  by (simp add: GetConfig_def)

lemma GetConfig_Inr:
  assumes "GetConfig n w st = (Inr p, st1, cmds)"
  shows "instance' st1 = Some p"
    and "(instance' st = Some p \<and> st1 = st)
         \<or> (instance' st = None \<and> p = length (heap st)
             \<and> (\<exists>network. heap st1 = heap st @ [network]))"
  using assms
  by (auto simp: GetConfig_def split: option.splits prod.splits)

lemma GetConfig_Inl:
  assumes "GetConfig n w st = (Inl e, st1, cmds)"
  shows "st1 = st" and "instance' st = None"
  using assms
  by (auto simp: GetConfig_def split: option.splits prod.splits)

lemma GetConfig_wf:
  assumes "cache_wf st"
  shows "cache_wf (fst (snd (GetConfig n w st)))"
  using assms
  by (auto simp: GetConfig_def cache_wf_def split: option.splits prod.splits)

lemma RefreshConfig_wf: "cache_wf (fst (snd (RefreshConfig n w st)))"
  by (rule GetConfig_wf [of "st\<lparr>instance' := None\<rparr>" n w, folded RefreshConfig_def])
     (simp add: cache_wf_def)

lemma do_call_wf: "cache_wf st \<Longrightarrow> cache_wf (fst (snd (do_call c st)))"
  by (cases c) (simp_all add: GetConfig_wf RefreshConfig_wf)

lemma run_wf: "cache_wf st \<Longrightarrow> cache_wf (run calls st)"
  by (induction calls arbitrary: st) (simp_all add: do_call_wf)

lemma reachable_wf: "cache_wf (run calls initial_cache)"
  by (rule run_wf) (simp add: cache_wf_def initial_cache_def)

lemma GetConfig_results_cached:
  "instance' st = Some p \<Longrightarrow> GetConfig_results later st = replicate (length later) (Inr p)"
  by (induction later) (auto simp: GetConfig_cached)

lemma GetConfig_pointer_in_heap:
  assumes "cache_wf st" and "GetConfig n w st = (Inr p, st1, cmds)"
  shows "p < length (heap st1)"
proof -
  have "cache_wf st1"
    using GetConfig_wf [OF assms(1), of n w] assms(2) by simp
  then show ?thesis
    using GetConfig_Inr(1) [OF assms(2)] by (simp add: cache_wf_def)
qed

lemma RefreshConfig_Inr:
  assumes "RefreshConfig n w st = (Inr q, st1, cmds)"
  shows "q = length (heap st)" and "instance' st1 = Some q"
    and "\<exists>network. heap st1 = heap st @ [network]"
  using GetConfig_Inr [of n w "st\<lparr>instance' := None\<rparr>" q st1 cmds] assms
  by (auto simp: RefreshConfig_def)

lemma RefreshConfig_Inl:
  assumes "RefreshConfig n w st = (Inl e, st1, cmds)"
  shows "st1 = st\<lparr>instance' := None\<rparr>"
  using GetConfig_Inl [of n w "st\<lparr>instance' := None\<rparr>" e st1 cmds] assms
  by (simp add: RefreshConfig_def)

text \<open>
  C2: in every state the program can reach, once \<open>GetConfig\<close> has returned a pointer
  \<open>p\<close> without error, a next \<open>GetConfig\<close>, on whatever machine, returns the same
  pointer \<open>p\<close>, runs no command and leaves the state as it is, and so does every list of
  calls of \<open>GetConfig\<close> that follows. A \<open>RefreshConfig\<close> that then succeeds returns a
  pointer \<open>q\<close> different from \<open>p\<close>, the \<open>Network\<close> that \<open>p\<close> points to is still the same,
  and the next \<open>GetConfig\<close> returns \<open>q\<close>.
\<close>

theorem cache_discipline:
  "GetConfig n w (run calls initial_cache) = (Inr p, st1, cmds) \<longrightarrow>
     GetConfig n1 w1 st1 = (Inr p, st1, [])
     \<and> GetConfig_results later st1 = replicate (length later) (Inr p)
     \<and> (RefreshConfig n2 w2 st1 = (Inr q, st2, cmds2) \<longrightarrow>
          q \<noteq> p
          \<and> heap st2 ! p = heap st1 ! p
          \<and> GetConfig n3 w3 st2 = (Inr q, st2, [])
          \<and> (\<forall>r st3 cmds3. GetConfig n3 w3 st2 = (r, st3, cmds3) \<longrightarrow> r \<noteq> Inr p))"
proof (intro impI conjI)
  assume get: "GetConfig n w (run calls initial_cache) = (Inr p, st1, cmds)"
  have cached: "instance' st1 = Some p"
    by (rule GetConfig_Inr(1) [OF get])
  show "GetConfig n1 w1 st1 = (Inr p, st1, [])"
    by (rule GetConfig_cached [OF cached])
  show "GetConfig_results later st1 = replicate (length later) (Inr p)"
    by (rule GetConfig_results_cached [OF cached])
  have p: "p < length (heap st1)"
    by (rule GetConfig_pointer_in_heap [OF reachable_wf get])
  assume refresh: "RefreshConfig n2 w2 st1 = (Inr q, st2, cmds2)"
  note r = RefreshConfig_Inr [OF refresh]
  show "q \<noteq> p"
    using r(1) p by simp
  show "heap st2 ! p = heap st1 ! p"
    using r(3) p by (auto simp: nth_append)
  show "GetConfig n3 w3 st2 = (Inr q, st2, [])"
    by (rule GetConfig_cached [OF r(2)])
  show "\<forall>r st3 cmds3. GetConfig n3 w3 st2 = (r, st3, cmds3) \<longrightarrow> r \<noteq> Inr p"
    using GetConfig_cached [OF r(2), of n3 w3] r(1) p by simp
qed

subsection \<open>The discovery on the example machines\<close>

lemma discover_linux_config:
  "discover config_net linux_config =
     (None,
      \<lparr>LocalIP = Some [192, 168, 1, 5], DNS = ['' 192.168.1.1'', ''8.8.8.8''],
       SubnetMask = None, DefaultGateway = Some [192, 168, 1, 1],
       DefaultGatewayHardwareAddress = [170, 187, 204, 221, 238, 255],
       InterfaceName = ''eth0'', HardwareAddress = [0, 17, 34, 51, 68, 85],
       Suffix = '' lan'',
       Interface = Some \<lparr>Name = ''eth0'', HardwareAddr = [0, 17, 34, 51, 68, 85],
                          Addrs = Inr [''192.168.1.5/24'']\<rparr>\<rparr>,
      [(''/bin/ip'', [''route'', ''get'', ''8.8.8.8'']),
       (''/sbin/ifconfig'', [''eth0'']),
       (''grep'', [''domain-name'', ''/var/lib/dhcp/dhclient.eth0.leases'']),
       (''arp'', [''-e'', ''192.168.1.1''])])"
  by code_simp

lemma discover_no_commands:
  "discover config_net no_commands = (Some (Error ''ip command not found''), empty_Network, [])"
  by code_simp

lemma discover_windows_tunnel:
  "discover config_net windows_tunnel =
     (None,
      \<lparr>LocalIP = Some [10, 8, 0, 2], DNS = [], SubnetMask = None, DefaultGateway = None,
       DefaultGatewayHardwareAddress = [], InterfaceName = ''wg0'', HardwareAddress = [],
       Suffix = '''',
       Interface = Some \<lparr>Name = ''wg0'', HardwareAddr = [],
                          Addrs = Inr [''10.8.0.2/24'']\<rparr>\<rparr>,
      [(''ipconfig'', [''/all''])])"
  by code_simp

text \<open>The theorem at the start of the program, on the machine with Linux.\<close>

theorem cache_discipline_witness:
  "(\<exists>st1 cmds st2 cmds2.
      GetConfig config_net linux_config (run [] initial_cache) = (Inr 0, st1, cmds)
      \<and> GetConfig config_net no_commands st1 = (Inr 0, st1, [])
      \<and> GetConfig_results [(config_net, no_commands), (config_net, windows_tunnel)] st1
          = [Inr 0, Inr 0]
      \<and> RefreshConfig config_net linux_config st1 = (Inr 1, st2, cmds2)
      \<and> (1::nat) \<noteq> 0
      \<and> heap st2 ! 0 = heap st1 ! 0
      \<and> GetConfig config_net no_commands st2 = (Inr 1, st2, []))"
proof -
  obtain st1 cmds where
    get: "GetConfig config_net linux_config (run [] initial_cache) = (Inr 0, st1, cmds)"
    by (simp add: GetConfig_def initial_cache_def discover_linux_config)
  then have cached: "instance' st1 = Some 0" and h1: "length (heap st1) = 1"
    by (auto simp: GetConfig_def initial_cache_def discover_linux_config)
  obtain st2 cmds2 where
    refresh: "RefreshConfig config_net linux_config st1 = (Inr 1, st2, cmds2)"
    using h1 by (simp add: RefreshConfig_def GetConfig_def discover_linux_config)
  note t = cache_discipline [of config_net linux_config "[]" 0 st1 cmds
      config_net no_commands "[(config_net, no_commands), (config_net, windows_tunnel)]"
      config_net linux_config 1 st2 cmds2 config_net no_commands]
  from t get have a: "GetConfig config_net no_commands st1 = (Inr 0, st1, [])"
    by blast
  from t get have b:
    "GetConfig_results [(config_net, no_commands), (config_net, windows_tunnel)] st1
       = replicate (length [(config_net, no_commands), (config_net, windows_tunnel)]) (Inr 0)"
    by blast
  from t get refresh have c: "(1::nat) \<noteq> 0 \<and> heap st2 ! 0 = heap st1 ! 0
      \<and> GetConfig config_net no_commands st2 = (Inr 1, st2, [])"
    by blast
  from b have b': "GetConfig_results [(config_net, no_commands), (config_net, windows_tunnel)] st1
       = [Inr 0, Inr 0]"
    by (simp add: numeral_2_eq_2)
  show ?thesis
    using get a b' refresh c by blast
qed

text \<open>
  C3, as stated, says that a \<open>RefreshConfig\<close> whose rebuild fails leaves the prior
  snapshot retrievable by a later \<open>GetConfig\<close>. \<open>RefreshConfig\<close> sets the cached pointer
  to \<open>nil\<close> before it rebuilds: after the snapshot 0 has been cached, a \<open>RefreshConfig\<close>
  on a machine without the command \<open>ip\<close> fails and leaves the cache empty, and the next
  \<open>GetConfig\<close> there returns the error, not the snapshot 0.
\<close>

theorem RefreshConfig_failure_counterexample:
  "(\<exists>st1 cmds st2.
      GetConfig config_net linux_config initial_cache = (Inr 0, st1, cmds)
      \<and> RefreshConfig config_net no_commands st1
          = (Inl (Error ''ip command not found''), st2, [])
      \<and> instance' st2 = None
      \<and> GetConfig config_net no_commands st2
          = (Inl (Error ''ip command not found''), st2, []))"
  by (simp add: GetConfig_def RefreshConfig_def initial_cache_def discover_linux_config
      discover_no_commands)

text \<open>
  C3, amended: when the discovery fails, no snapshot is produced and none is cached. A
  \<open>GetConfig\<close> that fails leaves the state as it was, and its cache was empty. A
  \<open>RefreshConfig\<close> whose rebuild fails leaves every \<open>Network\<close> allocated before as it
  was, but the cache empty: the prior snapshot is no longer cached, and a later
  \<open>GetConfig\<close> runs the discovery again; if that succeeds it returns a new pointer,
  different from the one cached before the refresh.
\<close>

theorem discovery_failure:
  "(GetConfig n w st = (Inl e, st1, cmds) \<longrightarrow> st1 = st \<and> instance' st = None)
   \<and> (RefreshConfig n w (run calls initial_cache) = (Inl e, st1, cmds) \<longrightarrow>
        instance' st1 = None
        \<and> heap st1 = heap (run calls initial_cache)
        \<and> fst (GetConfig n1 w1 st1) = (case discover n1 w1 of
                                         (Some err, network, cmds1) \<Rightarrow> Inl err
                                       | (None, network, cmds1) \<Rightarrow> Inr (length (heap st1)))
        \<and> (\<forall>p. instance' (run calls initial_cache) = Some p \<longrightarrow>
               fst (GetConfig n1 w1 st1) \<noteq> Inr p))"
proof (intro conjI impI)
  assume "GetConfig n w st = (Inl e, st1, cmds)"
  then show "st1 = st" and "instance' st = None"
    by (rule GetConfig_Inl)+
next
  assume "RefreshConfig n w (run calls initial_cache) = (Inl e, st1, cmds)"
  then have st1: "st1 = (run calls initial_cache)\<lparr>instance' := None\<rparr>"
    by (rule RefreshConfig_Inl)
  show "instance' st1 = None" and "heap st1 = heap (run calls initial_cache)"
    using st1 by simp_all
  show d: "fst (GetConfig n1 w1 st1) = (case discover n1 w1 of
                                         (Some err, network, cmds1) \<Rightarrow> Inl err
                                       | (None, network, cmds1) \<Rightarrow> Inr (length (heap st1)))"
    using st1 by (simp add: GetConfig_def split: prod.splits option.splits)
  show "\<forall>p. instance' (run calls initial_cache) = Some p \<longrightarrow>
               fst (GetConfig n1 w1 st1) \<noteq> Inr p"
  proof (intro allI impI)
    fix p
    assume "instance' (run calls initial_cache) = Some p"
    then have "p < length (heap st1)"
      using reachable_wf [of calls] st1 by (simp add: cache_wf_def)
    then show "fst (GetConfig n1 w1 st1) \<noteq> Inr p"
      unfolding d by (auto split: prod.splits option.splits)
  qed
qed

theorem discovery_failure_witness:
  "GetConfig config_net no_commands initial_cache
     = (Inl (Error ''ip command not found''), initial_cache, [])
   \<and> instance' initial_cache = None
   \<and> instance' (run [CallGetConfig config_net linux_config] initial_cache) = Some 0
   \<and> (\<exists>st1. RefreshConfig config_net no_commands
                (run [CallGetConfig config_net linux_config] initial_cache)
              = (Inl (Error ''ip command not found''), st1, [])
        \<and> instance' st1 = None
        \<and> heap st1 = heap (run [CallGetConfig config_net linux_config] initial_cache)
        \<and> fst (GetConfig config_net linux_config st1) = Inr 1
        \<and> fst (GetConfig config_net linux_config st1) \<noteq> Inr 0)"
proof -
  have g: "GetConfig config_net no_commands initial_cache
     = (Inl (Error ''ip command not found''), initial_cache, [])"
    by (simp add: GetConfig_def initial_cache_def discover_no_commands)
  have i: "instance' (run [CallGetConfig config_net linux_config] initial_cache) = Some 0"
    by (simp add: GetConfig_def initial_cache_def discover_linux_config)
  obtain st1 where r: "RefreshConfig config_net no_commands
                (run [CallGetConfig config_net linux_config] initial_cache)
              = (Inl (Error ''ip command not found''), st1, [])"
    by (simp add: RefreshConfig_def GetConfig_def discover_no_commands)
  note t0 = discovery_failure [of config_net no_commands initial_cache
      "Error ''ip command not found''" initial_cache "[]"
      "[CallGetConfig config_net linux_config]" config_net linux_config]
  note t = discovery_failure [of config_net no_commands
      "run [CallGetConfig config_net linux_config] initial_cache"
      "Error ''ip command not found''" st1 "[]"
      "[CallGetConfig config_net linux_config]" config_net linux_config]
  from t0 g have n: "instance' initial_cache = None"
    by blast
  from t r have a: "instance' st1 = None
      \<and> heap st1 = heap (run [CallGetConfig config_net linux_config] initial_cache)"
    by blast
  from t r i have b: "fst (GetConfig config_net linux_config st1) \<noteq> Inr 0"
    by blast
  have h: "length (heap (run [CallGetConfig config_net linux_config] initial_cache)) = 1"
    by (simp add: GetConfig_def initial_cache_def discover_linux_config)
  from t r have "fst (GetConfig config_net linux_config st1)
      = (case discover config_net linux_config of
           (Some err, network, cmds1) \<Rightarrow> Inl err
         | (None, network, cmds1) \<Rightarrow> Inr (length (heap st1)))"
    by blast
  then have c: "fst (GetConfig config_net linux_config st1) = Inr 1"
    using a h by (simp add: discover_linux_config)
  show ?thesis
    using g n i r a b c by blast
qed

section \<open>Properties of the discovery\<close>

lemma ContainsAny_iff: "ContainsAny s chars = (\<exists>c \<in> set s. c \<in> set chars)"
  by (simp add: ContainsAny_def list_ex_iff)

lemma getLinux_lease_rejects:
  assumes "\<exists>c \<in> set (InterfaceName network).
             c \<in> {CHR '';'', CHR ''&'', CHR ''|'', CHR 0x60, CHR ''$'', CHR ''('', CHR '')'',
                  CHR 0x0A}"
  shows "getLinux_lease n w network cmds = (Some (Error ''invalid interface name''), network, cmds)"
proof -
  have "ContainsAny (InterfaceName network) ('';&|'' @ [CHR 0x60] @ ''$()'' @ [CHR 0x0A])"
    using assms unfolding ContainsAny_iff by auto
  then show ?thesis
    by (simp add: getLinux_lease_def)
qed

lemma getLinux_ifconfig_rejects:
  assumes "(if findCommand w ''ifconfig''
               [''/sbin/ifconfig'', ''/bin/ifconfig'', ''/usr/sbin/ifconfig'',
                ''/usr/bin/ifconfig''] = ''''
            then ''ifconfig''
            else findCommand w ''ifconfig''
                   [''/sbin/ifconfig'', ''/bin/ifconfig'', ''/usr/sbin/ifconfig'',
                    ''/usr/bin/ifconfig'']) = ifconfigCmd"
    and "Output w ifconfigCmd [InterfaceName network] = Inr out2"
    and "\<exists>c \<in> set (InterfaceName network).
           c \<in> {CHR '';'', CHR ''&'', CHR ''|'', CHR 0x60, CHR ''$'', CHR ''('', CHR '')'',
                CHR 0x0A}"
  shows "\<exists>network'. getLinux_ifconfig n w network cmds
           = (Some (Error ''invalid interface name''), network',
              cmds @ [(ifconfigCmd, [InterfaceName network])])"
proof -
  have eq: "getLinux_ifconfig n w network cmds =
      (case Output w ifconfigCmd [InterfaceName network] of
            Inl err \<Rightarrow> (Some err, network, cmds @ [(ifconfigCmd, [InterfaceName network])])
          | Inr out \<Rightarrow>
              let lines = Split out [CHR 0x0A];
                  network =
                    (if length lines > 1 then
                       (let fields = Fields (TrimSpace (lines ! 1))
                        in if length fields > 4
                           then network\<lparr>SubnetMask := ParseIP n (fields ! 4)\<rparr>
                           else network)
                     else network)
              in getLinux_lease n w network
                   (cmds @ [(ifconfigCmd, [InterfaceName network])]))"
    unfolding getLinux_ifconfig_def Let_def assms(1) ..
  have rej: "getLinux_lease n w net (cmds @ [(ifconfigCmd, [InterfaceName network])])
      = (Some (Error ''invalid interface name''), net,
         cmds @ [(ifconfigCmd, [InterfaceName network])])"
    if "InterfaceName net = InterfaceName network" for net
    using assms(3) that by (intro getLinux_lease_rejects) simp
  show ?thesis
    unfolding eq using assms(2) by (simp add: Let_def rej)
qed

text \<open>
  C7: a run of \<open>getLinux\<close> in which the command \<open>ip\<close> is found and gives at least seven
  fields, the fifth of them, the interface name, contains one of the characters
  \<open>; & | ` $ ( )\<close> or a newline, the system knows an interface of that name and
  \<open>ifconfig\<close> runs without error. Then \<open>getLinux\<close> returns the error
  \<open>invalid interface name\<close>, and the commands it has run are \<open>ip route get 8.8.8.8\<close> and
  \<open>ifconfig\<close> with the interface name, and no others: no \<open>grep domain-name\<close> on a lease
  file is among them. \<open>GetConfig\<close> on such a machine, with nothing cached, returns that
  error and caches nothing.
\<close>

theorem getLinux_rejects_metacharacters:
  assumes "findCommand w ''ip'' [''/bin/ip'', ''/sbin/ip'', ''/usr/bin/ip'', ''/usr/sbin/ip'']
             = ipCmd"
    and "ipCmd \<noteq> ''''"
    and "Output w ipCmd [''route'', ''get'', ''8.8.8.8''] = Inr out"
    and "7 \<le> length (Fields out)"
    and "Fields out ! 4 = name"
    and "\<exists>c \<in> set name.
           c \<in> {CHR '';'', CHR ''&'', CHR ''|'', CHR 0x60, CHR ''$'', CHR ''('', CHR '')'',
                CHR 0x0A}"
    and "InterfaceByName w name = Inr interf"
    and "(if findCommand w ''ifconfig''
               [''/sbin/ifconfig'', ''/bin/ifconfig'', ''/usr/sbin/ifconfig'',
                ''/usr/bin/ifconfig''] = ''''
          then ''ifconfig''
          else findCommand w ''ifconfig''
                 [''/sbin/ifconfig'', ''/bin/ifconfig'', ''/usr/sbin/ifconfig'',
                  ''/usr/bin/ifconfig'']) = ifconfigCmd"
    and "Output w ifconfigCmd [name] = Inr out2"
  shows "fst (getLinux n w network) = Some (Error ''invalid interface name'')
         \<and> snd (snd (getLinux n w network))
             = [(ipCmd, [''route'', ''get'', ''8.8.8.8'']), (ifconfigCmd, [name])]
         \<and> (\<forall>path. (''grep'', [''domain-name'', path])
                       \<notin> set (snd (snd (getLinux n w network))))
         \<and> (\<not> windows w \<and> instance' st = None \<longrightarrow>
               GetConfig n w st
                 = (Inl (Error ''invalid interface name''), st,
                    [(ipCmd, [''route'', ''get'', ''8.8.8.8'']), (ifconfigCmd, [name])]))"
proof -
  have all: "\<exists>network'. getLinux n w network0
      = (Some (Error ''invalid interface name''), network',
         [(ipCmd, [''route'', ''get'', ''8.8.8.8'']), (ifconfigCmd, [name])])" for network0
  proof -
    let ?net = "network0\<lparr>DefaultGateway := ParseIP n (Fields out ! 2),
                         InterfaceName := Fields out ! 4,
                         LocalIP := ParseIP n (Fields out ! 6),
                         HardwareAddress := HardwareAddr interf,
                         Interface := Some interf\<rparr>"
    have nm: "InterfaceName ?net = name"
      using assms(5) by simp
    have "getLinux n w network0
        = getLinux_ifconfig n w ?net [(ipCmd, [''route'', ''get'', ''8.8.8.8''])]"
      unfolding getLinux_def Let_def assms(1)
      using assms(2,3,4,5,7) by simp
    moreover have "\<exists>network'. getLinux_ifconfig n w ?net
          [(ipCmd, [''route'', ''get'', ''8.8.8.8''])]
        = (Some (Error ''invalid interface name''), network',
           [(ipCmd, [''route'', ''get'', ''8.8.8.8''])]
             @ [(ifconfigCmd, [InterfaceName ?net])])"
      using assms(6,9) nm by (intro getLinux_ifconfig_rejects [OF assms(8)]) simp_all
    ultimately show ?thesis
      using nm by auto
  qed
  obtain network' where g: "getLinux n w network
      = (Some (Error ''invalid interface name''), network',
         [(ipCmd, [''route'', ''get'', ''8.8.8.8'']), (ifconfigCmd, [name])])"
    using all by blast
  obtain network0 where g0: "getLinux n w empty_Network
      = (Some (Error ''invalid interface name''), network0,
         [(ipCmd, [''route'', ''get'', ''8.8.8.8'']), (ifconfigCmd, [name])])"
    using all by blast
  have "\<not> windows w \<and> instance' st = None \<longrightarrow>
               GetConfig n w st
                 = (Inl (Error ''invalid interface name''), st,
                    [(ipCmd, [''route'', ''get'', ''8.8.8.8'']), (ifconfigCmd, [name])])"
    using g0 by (simp add: GetConfig_def discover_def)
  then show ?thesis
    using g by simp
qed

lemma getLinux_linux_injection:
  "findCommand linux_injection ''ip'' [''/bin/ip'', ''/sbin/ip'', ''/usr/bin/ip'', ''/usr/sbin/ip'']
     = ''/bin/ip''"
  "Output linux_injection ''/bin/ip'' [''route'', ''get'', ''8.8.8.8'']
     = Inr ''8.8.8.8 via 192.168.1.1 dev eth0;id src 192.168.1.5 uid 1000''"
  "length (Fields ''8.8.8.8 via 192.168.1.1 dev eth0;id src 192.168.1.5 uid 1000'') = 9"
  "Fields ''8.8.8.8 via 192.168.1.1 dev eth0;id src 192.168.1.5 uid 1000'' ! 4 = ''eth0;id''"
  "InterfaceByName linux_injection ''eth0;id''
     = Inr \<lparr>Name = ''eth0;id'', HardwareAddr = [0, 17, 34, 51, 68, 85],
            Addrs = Inr [''192.168.1.5/24'']\<rparr>"
  "findCommand linux_injection ''ifconfig''
     [''/sbin/ifconfig'', ''/bin/ifconfig'', ''/usr/sbin/ifconfig'', ''/usr/bin/ifconfig'']
     = ''/sbin/ifconfig''"
  "Output linux_injection ''/sbin/ifconfig'' [''eth0;id'']
     = Inr (''eth0: flags=4163<UP,BROADCAST,RUNNING,MULTICAST>  mtu 1500'' @ [CHR 0x0A]
            @ ''        inet 192.168.1.5  netmask 255.255.255.0  broadcast 192.168.1.255''
            @ [CHR 0x0A])"
  by code_simp+

theorem getLinux_rejects_metacharacters_witness:
  "findCommand linux_injection ''ip'' [''/bin/ip'', ''/sbin/ip'', ''/usr/bin/ip'', ''/usr/sbin/ip'']
     = ''/bin/ip''
   \<and> Output linux_injection ''/bin/ip'' [''route'', ''get'', ''8.8.8.8'']
       = Inr ''8.8.8.8 via 192.168.1.1 dev eth0;id src 192.168.1.5 uid 1000''
   \<and> Fields ''8.8.8.8 via 192.168.1.1 dev eth0;id src 192.168.1.5 uid 1000'' ! 4 = ''eth0;id''
   \<and> CHR '';'' \<in> set ''eth0;id''
   \<and> \<not> windows linux_injection
   \<and> instance' initial_cache = None
   \<and> fst (getLinux config_net linux_injection empty_Network)
       = Some (Error ''invalid interface name'')
   \<and> snd (snd (getLinux config_net linux_injection empty_Network))
       = [(''/bin/ip'', [''route'', ''get'', ''8.8.8.8'']), (''/sbin/ifconfig'', [''eth0;id''])]
   \<and> (''grep'', [''domain-name'', ''/var/lib/dhcp/dhclient.eth0;id.leases''])
       \<notin> set (snd (snd (getLinux config_net linux_injection empty_Network)))
   \<and> GetConfig config_net linux_injection initial_cache
       = (Inl (Error ''invalid interface name''), initial_cache,
          [(''/bin/ip'', [''route'', ''get'', ''8.8.8.8'']), (''/sbin/ifconfig'', [''eth0;id''])])"
proof -
  have meta: "\<exists>c \<in> set ''eth0;id''.
           c \<in> {CHR '';'', CHR ''&'', CHR ''|'', CHR 0x60, CHR ''$'', CHR ''('', CHR '')'',
                CHR 0x0A}"
    by simp
  have semi: "CHR '';'' \<in> set ''eth0;id''"
    by simp
  have len: "7 \<le> length (Fields ''8.8.8.8 via 192.168.1.1 dev eth0;id src 192.168.1.5 uid 1000'')"
    by (simp add: getLinux_linux_injection(3))
  have ifc: "(if findCommand linux_injection ''ifconfig''
               [''/sbin/ifconfig'', ''/bin/ifconfig'', ''/usr/sbin/ifconfig'',
                ''/usr/bin/ifconfig''] = ''''
          then ''ifconfig''
          else findCommand linux_injection ''ifconfig''
                 [''/sbin/ifconfig'', ''/bin/ifconfig'', ''/usr/sbin/ifconfig'',
                  ''/usr/bin/ifconfig'']) = ''/sbin/ifconfig''"
    by (simp only: getLinux_linux_injection(6)) simp
  have ne: "''/bin/ip'' \<noteq> ''''"
    by simp
  have lin: "\<not> windows linux_injection"
    by (simp add: linux_injection_def linux_config_def)
  have emp: "instance' initial_cache = None"
    by (simp add: initial_cache_def)
  note t = getLinux_rejects_metacharacters
      [OF getLinux_linux_injection(1) ne getLinux_linux_injection(2) len
          getLinux_linux_injection(4) meta getLinux_linux_injection(5) ifc
          getLinux_linux_injection(7), of config_net empty_Network initial_cache]
  from t lin emp have g: "GetConfig config_net linux_injection initial_cache
       = (Inl (Error ''invalid interface name''), initial_cache,
          [(''/bin/ip'', [''route'', ''get'', ''8.8.8.8'']), (''/sbin/ifconfig'', [''eth0;id''])])"
    by blast
  from t have a: "fst (getLinux config_net linux_injection empty_Network)
       = Some (Error ''invalid interface name'')"
    and b: "snd (snd (getLinux config_net linux_injection empty_Network))
       = [(''/bin/ip'', [''route'', ''get'', ''8.8.8.8'']), (''/sbin/ifconfig'', [''eth0;id''])]"
    and c: "(''grep'', [''domain-name'', ''/var/lib/dhcp/dhclient.eth0;id.leases''])
       \<notin> set (snd (snd (getLinux config_net linux_injection empty_Network)))"
    by blast+
  show ?thesis
    using getLinux_linux_injection(1,2,4) semi lin emp a b c g by blast
qed

text \<open>
  C8, on the machine with Windows whose route to the Internet is a tunnel adapter
  without hardware address: \<open>GetConfig\<close> returns a snapshot without error, and its
  \<open>HardwareAddress\<close> is empty.
\<close>

theorem GetConfig_empty_hardware_address:
  "GetConfig config_net windows_tunnel initial_cache =
     (Inr 0,
      \<lparr>instance' = Some 0,
       heap = [\<lparr>LocalIP = Some [10, 8, 0, 2], DNS = [], SubnetMask = None,
                DefaultGateway = None, DefaultGatewayHardwareAddress = [],
                InterfaceName = ''wg0'', HardwareAddress = [], Suffix = '''',
                Interface = Some \<lparr>Name = ''wg0'', HardwareAddr = [],
                                   Addrs = Inr [''10.8.0.2/24'']\<rparr>\<rparr>]\<rparr>,
      [(''ipconfig'', [''/all''])])"
  by (simp add: GetConfig_def initial_cache_def discover_windows_tunnel)

end
